theory Spec2Isabelle
  imports Complex_Main
begin

section \<open>Conventions of the embedding\<close>

text \<open>
  The program is Python on top of numpy, JAX and h5py. The integral primitives only
  move floating-point numbers around, so their arrays are lists of reals (a matrix is
  the list of its rows). The self-consistent-field solver computes with its arrays and
  compares the results; its numbers are the reals with NaN added, finite numbers being
  computed exactly (no rounding, no overflow). Python exceptions are values of the type
  \<open>error\<close>; a computation that may raise returns \<open>error + 'a\<close> with \<open>Inl\<close> the exception.

  Code that the sources call but that is not part of them is a parameter: the libint
  session and the index mapper \<open>utils.get_deriv_vec_idx\<close> in \<open>oei_env\<close>, the routines
  \<open>jnp.linalg.cholesky\<close>, \<open>jnp.linalg.inv\<close>, \<open>jnp.linalg.eigh\<close> and
  \<open>compute_integrals\<close> in \<open>scf_env\<close>.
\<close>

datatype error =
    KeyError string
  | IndexError
  | OSError
  | ValueError
  | TypeError
  | ZeroDivisionError
  | UnboundLocalError
  | MissingDerivativeDataError

text \<open>
  \<open>MissingDerivativeDataError\<close> is the exception the specification names for a missing
  derivative dataset. No definition below produces it: the sources define no such class.
\<close>

type_synonym vec = "real list"
type_synonym mat = "real list list"
type_synonym tensor3 = "real list list list"
type_synonym tensor4 = "real list list list list"

section \<open>One-electron integral primitives (external\_integrals/oei.py)\<close>

text \<open>
  A dataset of the HDF5 file \<open>oei_derivs.h5\<close>: a three-dimensional array whose last axis
  has length \<open>axis2_len\<close>. The file itself is a dictionary from dataset names to datasets,
  or \<open>None\<close> when it cannot be opened.
\<close>

record dataset =
  axis2_len :: nat
  entries :: tensor3

record oei_env =
  libint_overlap :: "real list"
  libint_kinetic :: "real list"
  libint_potential :: "real list"
  get_deriv_vec_idx :: "int list \<Rightarrow> error + nat"
  oei_derivs_h5 :: "(string \<rightharpoonup> dataset) option"

text \<open>\<open>int(np.sqrt(n))\<close> for the length of a flat array.\<close>

definition isqrt :: "nat \<Rightarrow> nat" where
  "isqrt n = length (filter (\<lambda>k. k * k \<le> n) [1..<Suc n])"

text \<open>\<open>S.reshape(d, d)\<close>: numpy raises ValueError unless the sizes agree.\<close>

definition reshape2 :: "nat \<Rightarrow> real list \<Rightarrow> error + mat" where
  "reshape2 d xs =
     (if d * d = length xs
      then Inr (map (\<lambda>i. take d (drop (i * d) xs)) [0..<d])
      else Inl ValueError)"

definition overlap_impl :: "oei_env \<Rightarrow> vec \<Rightarrow> error + mat" where
  "overlap_impl env geom =
     (let S = libint_overlap env; d = isqrt (length S) in reshape2 d S)"

definition kinetic_impl :: "oei_env \<Rightarrow> vec \<Rightarrow> error + mat" where
  "kinetic_impl env geom =
     (let T = libint_kinetic env; d = isqrt (length T) in reshape2 d T)"

definition potential_impl :: "oei_env \<Rightarrow> vec \<Rightarrow> error + mat" where
  "potential_impl env geom =
     (let V = libint_potential env; d = isqrt (length V) in reshape2 d V)"

text \<open>\<open>np.asarray(deriv_vec, int)\<close> truncates every entry towards zero.\<close>

definition np_asarray_int :: "vec \<Rightarrow> int list" where
  "np_asarray_int v = map (\<lambda>x. if 0 \<le> x then \<lfloor>x\<rfloor> else \<lceil>x\<rceil>) v"

text \<open>\<open>str\<close> of an integer, in decimal.\<close>

fun str_nat :: "nat \<Rightarrow> string" where
  "str_nat n =
     (if n < 10 then [''0123456789'' ! n]
      else str_nat (n div 10) @ [''0123456789'' ! (n mod 10)])"

declare str_nat.simps [simp del]

definition str_int :: "int \<Rightarrow> string" where
  "str_int i = (if i < 0 then CHR ''-'' # str_nat (nat (- i)) else str_nat (nat i))"

text \<open>\<open>data_set[:, :, idx]\<close>: h5py refuses an index beyond the last axis.\<close>

definition slice_last :: "nat \<Rightarrow> dataset \<Rightarrow> error + mat" where
  "slice_last idx ds =
     (if idx < axis2_len ds
      then Inr (map (map (\<lambda>z. z ! idx)) (entries ds))
      else Inl IndexError)"

text \<open>
  The body shared by the three derivative evaluators, which differ in the prefix of the
  dataset name only. The index is computed before the file is opened; the geometry is
  a parameter that the body never reads.
\<close>

definition deriv_lookup :: "string \<Rightarrow> oei_env \<Rightarrow> vec \<Rightarrow> error + mat" where
  "deriv_lookup prefix env deriv_vec =
     (let dv = np_asarray_int deriv_vec;
          deriv_order = sum_list dv
      in case get_deriv_vec_idx env dv of
           Inl e \<Rightarrow> Inl e
         | Inr idx \<Rightarrow>
             (let dataset_name = prefix @ str_int deriv_order
              in case oei_derivs_h5 env of
                   None \<Rightarrow> Inl OSError
                 | Some f \<Rightarrow>
                     (case f dataset_name of
                        None \<Rightarrow> Inl (KeyError dataset_name)
                      | Some data_set \<Rightarrow> slice_last idx data_set)))"

definition overlap_deriv_impl :: "oei_env \<Rightarrow> vec \<Rightarrow> vec \<Rightarrow> error + mat" where
  "overlap_deriv_impl env geom deriv_vec = deriv_lookup ''overlap_deriv'' env deriv_vec"

definition kinetic_deriv_impl :: "oei_env \<Rightarrow> vec \<Rightarrow> vec \<Rightarrow> error + mat" where
  "kinetic_deriv_impl env geom deriv_vec = deriv_lookup ''kinetic_deriv'' env deriv_vec"

definition potential_deriv_impl :: "oei_env \<Rightarrow> vec \<Rightarrow> vec \<Rightarrow> error + mat" where
  "potential_deriv_impl env geom deriv_vec = deriv_lookup ''potential_deriv'' env deriv_vec"

text \<open>
  \<open>overlap(geom)\<close> binds the primitive \<open>overlap_p\<close>, whose registered evaluation rule is
  \<open>overlap_impl\<close>; likewise for the other five primitives.
\<close>

definition overlap :: "oei_env \<Rightarrow> vec \<Rightarrow> error + mat" where
  "overlap env geom = overlap_impl env geom"

definition overlap_deriv :: "oei_env \<Rightarrow> vec \<Rightarrow> vec \<Rightarrow> error + mat" where
  "overlap_deriv env geom deriv_vec = overlap_deriv_impl env geom deriv_vec"

definition kinetic :: "oei_env \<Rightarrow> vec \<Rightarrow> error + mat" where
  "kinetic env geom = kinetic_impl env geom"

definition kinetic_deriv :: "oei_env \<Rightarrow> vec \<Rightarrow> vec \<Rightarrow> error + mat" where
  "kinetic_deriv env geom deriv_vec = kinetic_deriv_impl env geom deriv_vec"

definition potential :: "oei_env \<Rightarrow> vec \<Rightarrow> error + mat" where
  "potential env geom = potential_impl env geom"

definition potential_deriv :: "oei_env \<Rightarrow> vec \<Rightarrow> vec \<Rightarrow> error + mat" where
  "potential_deriv env geom deriv_vec = potential_deriv_impl env geom deriv_vec"

subsection \<open>Jacobian-vector product rules\<close>

text \<open>
  \<open>deriv_vec + tangents[0]\<close> on one-dimensional arrays: entry by entry when the lengths
  agree, a one-element array is broadcast, anything else is refused.
\<close>

definition vec_add :: "vec \<Rightarrow> vec \<Rightarrow> error + vec" where
  "vec_add u t =
     (if length u = length t then Inr (map2 (+) u t)
      else if length t = 1 then Inr (map (\<lambda>x. x + hd t) u)
      else if length u = 1 then Inr (map (\<lambda>y. hd u + y) t)
      else Inl TypeError)"

text \<open>
  A rule with one primal argument gets one tangent; a rule with the primal arguments
  \<open>(geom, deriv_vec)\<close> gets a pair of tangents and reads the first. The primal output is
  evaluated first, so its exception wins.
\<close>

definition jvp_rule ::
  "(vec \<Rightarrow> error + mat) \<Rightarrow> (vec \<Rightarrow> vec \<Rightarrow> error + mat) \<Rightarrow> vec \<Rightarrow> vec \<Rightarrow> error + mat \<times> mat" where
  "jvp_rule f f_deriv geom tangent =
     (case f geom of
        Inl e \<Rightarrow> Inl e
      | Inr primals_out \<Rightarrow>
          (case f_deriv geom tangent of
             Inl e \<Rightarrow> Inl e
           | Inr tangents_out \<Rightarrow> Inr (primals_out, tangents_out)))"

definition deriv_jvp_rule ::
  "(vec \<Rightarrow> vec \<Rightarrow> error + mat) \<Rightarrow> vec \<times> vec \<Rightarrow> vec \<times> vec \<Rightarrow> error + mat \<times> mat" where
  "deriv_jvp_rule f_deriv primals tangents =
     (case primals of (geom, deriv_vec) \<Rightarrow>
        (case f_deriv geom deriv_vec of
           Inl e \<Rightarrow> Inl e
         | Inr primals_out \<Rightarrow>
             (case vec_add deriv_vec (fst tangents) of
                Inl e \<Rightarrow> Inl e
              | Inr w \<Rightarrow>
                  (case f_deriv geom w of
                     Inl e \<Rightarrow> Inl e
                   | Inr tangents_out \<Rightarrow> Inr (primals_out, tangents_out)))))"

definition overlap_jvp :: "oei_env \<Rightarrow> vec \<Rightarrow> vec \<Rightarrow> error + mat \<times> mat" where
  "overlap_jvp env geom tangent = jvp_rule (overlap env) (overlap_deriv env) geom tangent"

definition overlap_deriv_jvp :: "oei_env \<Rightarrow> vec \<times> vec \<Rightarrow> vec \<times> vec \<Rightarrow> error + mat \<times> mat" where
  "overlap_deriv_jvp env primals tangents = deriv_jvp_rule (overlap_deriv env) primals tangents"

definition kinetic_jvp :: "oei_env \<Rightarrow> vec \<Rightarrow> vec \<Rightarrow> error + mat \<times> mat" where
  "kinetic_jvp env geom tangent = jvp_rule (kinetic env) (kinetic_deriv env) geom tangent"

definition kinetic_deriv_jvp :: "oei_env \<Rightarrow> vec \<times> vec \<Rightarrow> vec \<times> vec \<Rightarrow> error + mat \<times> mat" where
  "kinetic_deriv_jvp env primals tangents = deriv_jvp_rule (kinetic_deriv env) primals tangents"

definition potential_jvp :: "oei_env \<Rightarrow> vec \<Rightarrow> vec \<Rightarrow> error + mat \<times> mat" where
  "potential_jvp env geom tangent = jvp_rule (potential env) (potential_deriv env) geom tangent"

definition potential_deriv_jvp :: "oei_env \<Rightarrow> vec \<times> vec \<Rightarrow> vec \<times> vec \<Rightarrow> error + mat \<times> mat" where
  "potential_deriv_jvp env primals tangents = deriv_jvp_rule (potential_deriv env) primals tangents"

subsection \<open>Batching rules\<close>

text \<open>
  The loop \<open>for i in deriv_batch\<close> evaluates the rows of the batch in order and stops at
  the first exception.
\<close>

fun eval_each :: "(vec \<Rightarrow> error + mat) \<Rightarrow> vec list \<Rightarrow> error + mat list" where
  "eval_each f [] = Inr []"
| "eval_each f (i # rest) =
     (case f i of
        Inl e \<Rightarrow> Inl e
      | Inr tmp \<Rightarrow>
          (case eval_each f rest of
             Inl e \<Rightarrow> Inl e
           | Inr results \<Rightarrow> Inr (tmp # results)))"

text \<open>
  \<open>jnp.concatenate(results, axis=0)\<close> of the slices, each with a new leading axis of
  length one: an empty list is refused (ValueError), and so are slices of different
  shapes (TypeError).
\<close>

definition same_shape :: "mat \<Rightarrow> mat \<Rightarrow> bool" where
  "same_shape a b = (map length a = map length b)"

definition concatenate0 :: "mat list \<Rightarrow> error + mat list" where
  "concatenate0 results =
     (case results of
        [] \<Rightarrow> Inl ValueError
      | r # rs \<Rightarrow> if list_all (same_shape r) rs then Inr results else Inl TypeError)"

definition deriv_batch_rule ::
  "(vec \<Rightarrow> vec \<Rightarrow> error + mat) \<Rightarrow> vec \<times> vec list \<Rightarrow> nat option \<times> nat option \<Rightarrow> error + mat list \<times> nat" where
  "deriv_batch_rule f_deriv batched_args batch_dims =
     (case batched_args of (geom_batch, deriv_batch) \<Rightarrow>
        (case eval_each (f_deriv geom_batch) deriv_batch of
           Inl e \<Rightarrow> Inl e
         | Inr results \<Rightarrow>
             (case concatenate0 results of
                Inl e \<Rightarrow> Inl e
              | Inr stacked \<Rightarrow> Inr (stacked, 0))))"

definition overlap_deriv_batch ::
  "oei_env \<Rightarrow> vec \<times> vec list \<Rightarrow> nat option \<times> nat option \<Rightarrow> error + mat list \<times> nat" where
  "overlap_deriv_batch env batched_args batch_dims =
     deriv_batch_rule (overlap_deriv env) batched_args batch_dims"

definition kinetic_deriv_batch ::
  "oei_env \<Rightarrow> vec \<times> vec list \<Rightarrow> nat option \<times> nat option \<Rightarrow> error + mat list \<times> nat" where
  "kinetic_deriv_batch env batched_args batch_dims =
     deriv_batch_rule (kinetic_deriv env) batched_args batch_dims"

definition potential_deriv_batch ::
  "oei_env \<Rightarrow> vec \<times> vec list \<Rightarrow> nat option \<times> nat option \<Rightarrow> error + mat list \<times> nat" where
  "potential_deriv_batch env batched_args batch_dims =
     deriv_batch_rule (potential_deriv env) batched_args batch_dims"

section \<open>Floating-point numbers with NaN\<close>

text \<open>
  The arrays of the self-consistent-field code hold floating-point numbers, and the
  loop of the solver is steered by comparisons of such numbers. A comparison with NaN
  is false whichever way it is written, so the numbers of this part are the reals with
  one more value \<open>NaN\<close>, which every operation propagates. Finite values are computed
  exactly: rounding and overflow are not modelled. NaN enters through the library
  routines (the Cholesky factor of a matrix that is not positive definite is NaN
  throughout), through a square root of a negative number and through \<open>0 / 0\<close>.
\<close>

datatype fl = Fin real | NaN

instantiation fl :: "{zero, one, plus, minus, times}"
begin

definition zero_fl :: fl where
  "zero_fl = Fin 0"

definition one_fl :: fl where
  "one_fl = Fin 1"

definition plus_fl :: "fl \<Rightarrow> fl \<Rightarrow> fl" where
  "plus_fl x y = (case (x, y) of (Fin a, Fin b) \<Rightarrow> Fin (a + b) | _ \<Rightarrow> NaN)"

definition minus_fl :: "fl \<Rightarrow> fl \<Rightarrow> fl" where
  "minus_fl x y = (case (x, y) of (Fin a, Fin b) \<Rightarrow> Fin (a - b) | _ \<Rightarrow> NaN)"

definition times_fl :: "fl \<Rightarrow> fl \<Rightarrow> fl" where
  "times_fl x y = (case (x, y) of (Fin a, Fin b) \<Rightarrow> Fin (a * b) | _ \<Rightarrow> NaN)"

instance ..

end

text \<open>
  Division: the only quotient that the loop forms is a mean, whose divisor is zero
  only when the dividend is, and \<open>0 / 0\<close> is NaN. A quotient of a number other than zero
  by zero (an infinity) does not occur there and is NaN here as well.
\<close>

definition fdiv :: "fl \<Rightarrow> fl \<Rightarrow> fl" where
  "fdiv x y = (case (x, y) of (Fin a, Fin b) \<Rightarrow> if b = 0 then NaN else Fin (a / b) | _ \<Rightarrow> NaN)"

definition fabs :: "fl \<Rightarrow> fl" where
  "fabs x = (case x of Fin a \<Rightarrow> Fin \<bar>a\<bar> | NaN \<Rightarrow> NaN)"

definition fsqrt :: "fl \<Rightarrow> fl" where
  "fsqrt x = (case x of Fin a \<Rightarrow> if a < 0 then NaN else Fin (sqrt a) | NaN \<Rightarrow> NaN)"

text \<open>The comparisons \<open>x > y\<close> and \<open>x <= y\<close> of floating-point numbers.\<close>

definition fgt :: "fl \<Rightarrow> fl \<Rightarrow> bool" where
  "fgt x y = (case (x, y) of (Fin a, Fin b) \<Rightarrow> a > b | _ \<Rightarrow> False)"

definition fle :: "fl \<Rightarrow> fl \<Rightarrow> bool" where
  "fle x y = (case (x, y) of (Fin a, Fin b) \<Rightarrow> a \<le> b | _ \<Rightarrow> False)"

type_synonym fvec = "fl list"
type_synonym ftensor4 = "fl list list list list"

instance fl :: comm_monoid_add
proof
  fix a b c :: fl
  show "a + b + c = a + (b + c)" by (cases a; cases b; cases c) (simp_all add: plus_fl_def)
  show "a + b = b + a" by (cases a; cases b) (simp_all add: plus_fl_def)
  show "0 + a = a" by (cases a) (simp_all add: zero_fl_def plus_fl_def)
qed

instance fl :: comm_monoid_mult
proof
  fix a b c :: fl
  show "a * b * c = a * (b * c)" by (cases a; cases b; cases c) (simp_all add: times_fl_def)
  show "a * b = b * a" by (cases a; cases b) (simp_all add: times_fl_def)
  show "1 * a = a" by (cases a) (simp_all add: one_fl_def times_fl_def)
qed

instance fl :: comm_semiring
proof
  fix a b c :: fl
  show "(a + b) * c = a * c + b * c"
    by (cases a; cases b; cases c) (simp_all add: plus_fl_def times_fl_def algebra_simps)
qed

section \<open>Two-dimensional arrays with their shape\<close>

text \<open>
  The self-consistent-field code slices and transposes matrices that may have no column
  at all (no doubly occupied orbital), so a matrix carries its shape: a list of rows
  alone cannot tell a matrix of two empty rows from an empty matrix. Its entries are
  floating-point numbers. The operations
  below are the array operations of the sources on arrays of conforming shapes; what
  numpy does for shapes that do not conform (broadcasting, or an exception) is not
  modelled, and the theorems that depend on shapes state them.
\<close>

record matrix =
  nrows :: nat
  ncols :: nat
  rows :: "fl list list"

definition wf_matrix :: "matrix \<Rightarrow> bool" where
  "wf_matrix M \<longleftrightarrow> length (rows M) = nrows M \<and> (\<forall>r \<in> set (rows M). length r = ncols M)"

definition is_mat :: "nat \<Rightarrow> nat \<Rightarrow> matrix \<Rightarrow> bool" where
  "is_mat n m M \<longleftrightarrow> nrows M = n \<and> ncols M = m \<and> wf_matrix M"

definition entry :: "matrix \<Rightarrow> nat \<Rightarrow> nat \<Rightarrow> fl" where
  "entry M i j = rows M ! i ! j"

definition col :: "matrix \<Rightarrow> nat \<Rightarrow> fl list" where
  "col M j = map (\<lambda>r. r ! j) (rows M)"

text \<open>\<open>M.T\<close>\<close>

definition transpose_m :: "matrix \<Rightarrow> matrix" where
  "transpose_m M = \<lparr>nrows = ncols M, ncols = nrows M, rows = map (col M) [0..<ncols M]\<rparr>"

definition inner :: "fl list \<Rightarrow> fl list \<Rightarrow> fl" where
  "inner x y = sum_list (map2 (*) x y)"

text \<open>\<open>jnp.dot(A, B)\<close>, also written \<open>A.dot(B)\<close>\<close>

definition dot :: "matrix \<Rightarrow> matrix \<Rightarrow> matrix" where
  "dot A B =
     \<lparr>nrows = nrows A, ncols = ncols B,
      rows = map (\<lambda>r. map (\<lambda>j. inner r (col B j)) [0..<ncols B]) (rows A)\<rparr>"

definition mat_add :: "matrix \<Rightarrow> matrix \<Rightarrow> matrix" where
  "mat_add A B = \<lparr>nrows = nrows A, ncols = ncols A, rows = map2 (map2 (+)) (rows A) (rows B)\<rparr>"

definition mat_sub :: "matrix \<Rightarrow> matrix \<Rightarrow> matrix" where
  "mat_sub A B = \<lparr>nrows = nrows A, ncols = ncols A, rows = map2 (map2 (-)) (rows A) (rows B)\<rparr>"

definition scale :: "fl \<Rightarrow> matrix \<Rightarrow> matrix" where
  "scale a M = \<lparr>nrows = nrows M, ncols = ncols M, rows = map (map (\<lambda>x. a * x)) (rows M)\<rparr>"

definition zeros :: "nat \<Rightarrow> nat \<Rightarrow> matrix" where
  "zeros n m = \<lparr>nrows = n, ncols = m, rows = replicate n (replicate m 0)\<rparr>"

text \<open>\<open>jnp.diag(v)\<close> of a one-dimensional array; \<open>identity n\<close> is the unit matrix.\<close>

definition diag :: "fl list \<Rightarrow> matrix" where
  "diag v =
     \<lparr>nrows = length v, ncols = length v,
      rows = map (\<lambda>i. map (\<lambda>j. if i = j then v ! i else 0) [0..<length v]) [0..<length v]\<rparr>"

definition identity :: "nat \<Rightarrow> matrix" where
  "identity n = diag (replicate n 1)"

text \<open>\<open>jnp.einsum("pq,pq->", X, Y)\<close>: the sum of the products of corresponding entries.\<close>

definition einsum_pq_pq :: "matrix \<Rightarrow> matrix \<Rightarrow> fl" where
  "einsum_pq_pq X Y = sum_list (map2 inner (rows X) (rows Y))"

text \<open>
  \<open>jnp.einsum("ij,jk,kl->il", X, Y, Z)\<close>: entry \<open>(i, l)\<close> is the sum over \<open>j\<close> and \<open>k\<close> of
  \<open>X[i][j] * Y[j][k] * Z[k][l]\<close>.
\<close>

definition einsum_ij_jk_kl :: "matrix \<Rightarrow> matrix \<Rightarrow> matrix \<Rightarrow> matrix" where
  "einsum_ij_jk_kl X Y Z =
     \<lparr>nrows = nrows X, ncols = ncols Z,
      rows = map (\<lambda>r. map (\<lambda>l. sum_list (map2 (\<lambda>x y. x * inner y (col Z l)) r (rows Y)))
                          [0..<ncols Z]) (rows X)\<rparr>"

text \<open>
  \<open>C[:, :k]\<close>: a Python slice keeps the first \<open>k\<close> columns, and for a negative \<open>k\<close> all
  but the last \<open>-k\<close>.
\<close>

definition py_slice_to :: "int \<Rightarrow> 'a list \<Rightarrow> 'a list" where
  "py_slice_to k xs = (if 0 \<le> k then take (nat k) xs else take (length xs - nat (- k)) xs)"

definition columns_to :: "int \<Rightarrow> matrix \<Rightarrow> matrix" where
  "columns_to k M =
     \<lparr>nrows = nrows M, ncols = length (py_slice_to k [0..<ncols M]),
      rows = map (py_slice_to k) (rows M)\<rparr>"

text \<open>
  \<open>jnp.mean(M ** 2) ** 0.5\<close>: the mean of no entries at all is \<open>0 / 0\<close>.
\<close>

definition rms :: "matrix \<Rightarrow> fl" where
  "rms M =
     fsqrt (fdiv (sum_list (map (\<lambda>x. x ^ 2) (concat (rows M)))) (Fin (real (nrows M * ncols M))))"

section \<open>Energy utilities (methods/energy\_utils.py)\<close>

text \<open>
  The routines of \<open>jnp.linalg\<close> and the integral driver \<open>compute_integrals\<close> (module
  \<open>ints\<close>, not among the sources) are parameters.
\<close>

record options =
  maxit :: int
  damping :: bool
  damp_factor :: real
  spectral_shift :: bool

record scf_env =
  compute_integrals ::
    "vec \<Rightarrow> string \<Rightarrow> string \<Rightarrow> vec \<Rightarrow> int \<Rightarrow> int \<Rightarrow> options \<Rightarrow> matrix \<times> matrix \<times> matrix \<times> ftensor4"
  linalg_cholesky :: "matrix \<Rightarrow> matrix"
  linalg_inv :: "matrix \<Rightarrow> matrix"
  linalg_eigh :: "matrix \<Rightarrow> fvec \<times> matrix"

text \<open>
  \<open>nuclear_repulsion\<close>: the double loop over pairs \<open>j < i\<close>. An index beyond the rows of
  \<open>geom\<close> is clamped to the last row, as JAX does. The solver computes this number and
  never uses it, so it is kept in exact arithmetic.
\<close>

definition norm_vec :: "vec \<Rightarrow> real" where
  "norm_vec v = sqrt (sum_list (map (\<lambda>x. x ^ 2) v))"

definition nuclear_repulsion :: "vec list \<Rightarrow> vec \<Rightarrow> real" where
  "nuclear_repulsion geom nuclear_charges =
     (let natom = length nuclear_charges;
          atom = (\<lambda>i. geom ! min i (length geom - 1))
      in sum_list (concat (map (\<lambda>i. map (\<lambda>j.
           nuclear_charges ! i * nuclear_charges ! j / norm_vec (map2 (-) (atom i) (atom j)))
           [0..<i]) [0..<natom])))"

definition cholesky_orthogonalization :: "scf_env \<Rightarrow> matrix \<Rightarrow> matrix" where
  "cholesky_orthogonalization env S = transpose_m (linalg_inv env (linalg_cholesky env S))"

section \<open>Restricted Hartree-Fock (methods/hartree\_fock.py)\<close>

record rhf_args =
  geom :: vec
  basis_name :: string
  xyz_path :: string
  nuclear_charges :: vec
  charge :: int
  opts :: options
  deriv_order :: int
  return_aux_data :: bool
  dmguess :: "matrix option"

text \<open>
  What the function has computed when it reaches the loop: the values that the loop
  reads and never assigns.
\<close>

record scf_ctx =
  c_maxit :: int
  c_damping :: bool
  c_damp_factor :: real
  c_convergence :: real
  c_ndocc :: int
  c_nbf :: nat
  c_S :: matrix
  c_H :: matrix
  c_A :: matrix
  c_G :: ftensor4
  c_shift :: matrix
  c_Enuc :: real
  c_eigh :: "matrix \<Rightarrow> fvec \<times> matrix"
  c_return_aux_data :: bool

text \<open>
  The variables that the loop assigns. \<open>F\<close>, \<open>C\<close> and \<open>eps\<close> are unbound until the first
  pass of the loop has run.
\<close>

record scf_state =
  iteration :: int
  E_scf :: fl
  E_old :: fl
  dRMS :: fl
  s_D :: matrix
  s_Dold :: matrix
  s_F :: "matrix option"
  s_C :: "matrix option"
  s_eps :: "fvec option"

text \<open>\<open>int(x)\<close> of a floating-point number truncates towards zero.\<close>

definition py_int :: "real \<Rightarrow> int" where
  "py_int x = (if 0 \<le> x then \<lfloor>x\<rfloor> else \<lceil>x\<rceil>)"

text \<open>\<open>np.linspace(0, 1, n)\<close>\<close>

definition linspace01 :: "nat \<Rightarrow> real list" where
  "linspace01 n = map (\<lambda>i. if n = 1 then 0 else real i / real (n - 1)) [0..<n]"

text \<open>\<open>geom.reshape(-1, 3)\<close>: refused unless the length is a multiple of three.\<close>

definition reshape_m1_3 :: "vec \<Rightarrow> error + vec list" where
  "reshape_m1_3 g =
     (if length g mod 3 = 0
      then Inr (map (\<lambda>i. take 3 (drop (3 * i) g)) [0..<length g div 3])
      else Inl TypeError)"

text \<open>
  \<open>jk_build(G, D)\<close>: the two nested \<open>vmap\<close>s apply the contraction
  \<open>tensordot(x, D, axes=[(0, 1), (0, 1)])\<close> to every block \<open>x = G[p][q]\<close>.
\<close>

definition tensordot_01 :: "fl list list \<Rightarrow> matrix \<Rightarrow> fl" where
  "tensordot_01 x y = sum_list (map2 inner x (rows y))"

definition jk_build :: "ftensor4 \<Rightarrow> matrix \<Rightarrow> matrix" where
  "jk_build G D =
     \<lparr>nrows = length G, ncols = (case G of [] \<Rightarrow> 0 | g # _ \<Rightarrow> length g),
      rows = map (map (\<lambda>x. tensordot_01 x D)) G\<rparr>"

text \<open>\<open>G.transpose((0, 2, 1, 3))\<close> swaps the two middle axes.\<close>

definition swap_axes :: "'a list list \<Rightarrow> 'a list list" where
  "swap_axes X =
     map (\<lambda>j. map (\<lambda>r. r ! j) X) [0..<(case X of [] \<Rightarrow> 0 | r # _ \<Rightarrow> length r)]"

definition transpose_0213 :: "ftensor4 \<Rightarrow> ftensor4" where
  "transpose_0213 G = map swap_axes G"

text \<open>The values fixed before the loop, and the initial values of the loop variables.\<close>

definition rhf_setup :: "scf_env \<Rightarrow> rhf_args \<Rightarrow> error + scf_ctx \<times> scf_state" where
  "rhf_setup env a =
     (let nelectrons = py_int (sum_list (nuclear_charges a)) - charge a;
          ndocc = nelectrons div 2;
          (S, T, V, G) = compute_integrals env (geom a) (basis_name a) (xyz_path a)
                           (nuclear_charges a) (charge a) (deriv_order a) (opts a);
          A = cholesky_orthogonalization env S;
          nbf = nrows S;
          convergence = (if spectral_shift (opts a) then 1 / 10 ^ 8 else 1 / 10 ^ 10);
          shift = (if spectral_shift (opts a)
                   then diag (map (\<lambda>x. Fin (x * convergence)) (linspace01 nbf))
                   else zeros (nrows S) (ncols S));
          H = mat_add T V
      in case reshape_m1_3 (geom a) of
           Inl e \<Rightarrow> Inl e
         | Inr geom3 \<Rightarrow>
             (let Enuc = nuclear_repulsion geom3 (nuclear_charges a);
                  D = (case dmguess a of None \<Rightarrow> zeros (nrows H) (ncols H) | Some d \<Rightarrow> d)
              in Inr (\<lparr>c_maxit = maxit (opts a), c_damping = damping (opts a),
                        c_damp_factor = damp_factor (opts a), c_convergence = convergence,
                        c_ndocc = ndocc, c_nbf = nbf, c_S = S, c_H = H, c_A = A, c_G = G,
                        c_shift = shift, c_Enuc = Enuc, c_eigh = linalg_eigh env,
                        c_return_aux_data = return_aux_data a\<rparr>,
                      \<lparr>iteration = 0, E_scf = Fin 1, E_old = Fin 0, dRMS = Fin 1,
                        s_D = D, s_Dold = D,
                        s_F = None, s_C = None, s_eps = None\<rparr>)))"

text \<open>The inner function \<open>rhf_iter(F, D)\<close>; it returns \<open>(E_scf, D, C, eps)\<close>.\<close>

definition rhf_iter :: "scf_ctx \<Rightarrow> matrix \<Rightarrow> matrix \<Rightarrow> fl \<times> matrix \<times> matrix \<times> fvec" where
  "rhf_iter c F D =
     (let E = einsum_pq_pq (mat_add F (c_H c)) D;
          Fp = dot (transpose_m (c_A c)) (dot F (c_A c));
          Fp = mat_add Fp (c_shift c);
          (eps, C2) = c_eigh c Fp;
          C = dot (c_A c) C2;
          Cocc = columns_to (c_ndocc c) C;
          D = dot Cocc (transpose_m Cocc)
      in (E, D, C, eps))"

text \<open>
  The damping step: \<open>Dold * 1\<close> and \<open>E_scf * 1\<close> copy their operand. It returns the
  density that the rest of the pass uses, and the new \<open>Dold\<close>.
\<close>

definition damp_density :: "scf_ctx \<Rightarrow> int \<Rightarrow> matrix \<Rightarrow> matrix \<Rightarrow> matrix \<times> matrix" where
  "damp_density c it D Dold =
     (if c_damping c then
        (if it < 10 then
           (let D = mat_add (scale (Fin (c_damp_factor c)) Dold)
                            (scale (Fin (c_damp_factor c)) D)
            in (D, D))
         else (D, Dold))
      else (D, Dold))"

definition build_fock :: "scf_ctx \<Rightarrow> matrix \<Rightarrow> matrix" where
  "build_fock c D =
     (let JK = scale (Fin 2) (jk_build (c_G c) D);
          JK = mat_sub JK (jk_build (transpose_0213 (c_G c)) D)
      in mat_add (c_H c) JK)"

definition diis_error :: "matrix \<Rightarrow> matrix \<Rightarrow> matrix \<Rightarrow> matrix \<Rightarrow> matrix" where
  "diis_error A S F D =
     (let diis_e = mat_sub (einsum_ij_jk_kl F D S) (einsum_ij_jk_kl S D F)
      in dot (dot A diis_e) A)"

text \<open>One pass of the body of the \<open>while\<close> loop, up to and including \<open>iteration += 1\<close>.\<close>

definition scf_body :: "scf_ctx \<Rightarrow> scf_state \<Rightarrow> scf_state" where
  "scf_body c s =
     (let E_old' = E_scf s;
          (D, Dold') = damp_density c (iteration s) (s_D s) (s_Dold s);
          F = build_fock c D;
          dRMS' = (if iteration s > 1 then rms (diis_error (c_A c) (c_S c) F D) else dRMS s);
          (E, D', C, eps) = rhf_iter c F D
      in \<lparr>iteration = iteration s + 1, E_scf = E, E_old = E_old', dRMS = dRMS',
          s_D = D', s_Dold = Dold', s_F = Some F, s_C = Some C, s_eps = Some eps\<rparr>)"

text \<open>
  The test of the \<open>while\<close>: \<open>(abs(E_scf - E_old) > convergence) or (dRMS > convergence)\<close>,
  on floating-point numbers.
\<close>

definition loop_condition :: "scf_ctx \<Rightarrow> scf_state \<Rightarrow> bool" where
  "loop_condition c s \<longleftrightarrow>
     fgt (fabs (E_scf s - E_old s)) (Fin (c_convergence c))
     \<or> fgt (dRMS s) (Fin (c_convergence c))"

text \<open>
  The loop \<open>while ...: body; if iteration == maxit: break\<close>. It need not terminate, so
  its result is an option: \<open>None\<close> is a loop that runs forever.
\<close>

partial_function (option) scf_loop :: "scf_ctx \<Rightarrow> scf_state \<Rightarrow> scf_state option" where
  "scf_loop c s =
     (if loop_condition c s then
        (let s' = scf_body c s
         in if iteration s' = c_maxit c then Some s' else scf_loop c s')
      else Some s)"

text \<open>
  After the loop: the count of iterations is printed, the orbital energies are rounded
  to six decimals (\<open>jnp.round\<close> rounds halves to even and leaves NaN as it is) and the
  degenerate ones counted (\<open>jnp.unique\<close> takes all NaN for one value); a warning is
  printed when their share exceeds a fifth. The printed output is part of the result
  here.
\<close>

definition rint :: "real \<Rightarrow> int" where
  "rint x =
     (let f = \<lfloor>x\<rfloor>; d = x - of_int f
      in if d < 1 / 2 then f else if 1 / 2 < d then f + 1 else if even f then f else f + 1)"

definition round6 :: "fl \<Rightarrow> fl" where
  "round6 x = (case x of Fin a \<Rightarrow> Fin (of_int (rint (a * 10 ^ 6)) / 10 ^ 6) | NaN \<Rightarrow> NaN)"

record rhf_result =
  energy :: fl
  aux_data :: "(matrix \<times> fvec \<times> ftensor4) option"
  printed_iterations :: int
  degeneracy_warning :: bool

definition rhf_finish :: "scf_ctx \<Rightarrow> scf_state \<Rightarrow> error + rhf_result" where
  "rhf_finish c s =
     (case s_eps s of
        None \<Rightarrow> Inl UnboundLocalError
      | Some eps \<Rightarrow>
          (let tmp = map round6 eps;
               ndegen_orbs = int (length tmp) - int (length (remdups tmp))
           in if c_nbf c = 0 then Inl ZeroDivisionError
              else
                (let warn = (real_of_int ndegen_orbs / real (c_nbf c) > 20 / 100)
                 in if \<not> c_return_aux_data c
                    then Inr \<lparr>energy = E_scf s, aux_data = None,
                              printed_iterations = iteration s, degeneracy_warning = warn\<rparr>
                    else
                      (case s_C s of
                         None \<Rightarrow> Inl UnboundLocalError
                       | Some C \<Rightarrow>
                           Inr \<lparr>energy = E_scf s, aux_data = Some (C, eps, c_G c),
                                printed_iterations = iteration s,
                                degeneracy_warning = warn\<rparr>))))"

text \<open>
  The whole function. \<open>None\<close>: the loop never ends; \<open>Some (Inl e)\<close>: the exception \<open>e\<close>;
  \<open>Some (Inr r)\<close>: the returned value with the printed output.
\<close>

definition restricted_hartree_fock :: "scf_env \<Rightarrow> rhf_args \<Rightarrow> (error + rhf_result) option" where
  "restricted_hartree_fock env a =
     (case rhf_setup env a of
        Inl e \<Rightarrow> Some (Inl e)
      | Inr (c, s0) \<Rightarrow>
          (case scf_loop c s0 of
             None \<Rightarrow> None
           | Some s \<Rightarrow> Some (rhf_finish c s)))"

text \<open>
  Whether the loop is left after a pass that ends in the state \<open>s'\<close>: by the \<open>break\<close>, or
  by the test of the \<open>while\<close>, which is evaluated next.
\<close>

definition loop_exit :: "scf_ctx \<Rightarrow> scf_state \<Rightarrow> bool" where
  "loop_exit c s' \<longleftrightarrow> iteration s' = c_maxit c \<or> \<not> loop_condition c s'"

subsection \<open>A small derivative store\<close>

text \<open>
  Two Cartesian coordinates and one basis function. The index of a derivative vector
  \<open>[a, b]\<close> among the vectors of its order is \<open>b\<close>; the file holds the first and
  second derivatives of the three integral kinds and nothing of order three.
\<close>

definition example_idx :: "int list \<Rightarrow> error + nat" where
  "example_idx dv =
     (if length dv = 2 \<and> 0 \<le> dv ! 0 \<and> 0 \<le> dv ! 1 then Inr (nat (dv ! 1)) else Inl ValueError)"

definition example_file :: "string \<rightharpoonup> dataset" where
  "example_file =
     [''overlap_deriv1'' \<mapsto> \<lparr>axis2_len = 2, entries = [[[11, 12]]]\<rparr>,
      ''overlap_deriv2'' \<mapsto> \<lparr>axis2_len = 3, entries = [[[13, 14, 15]]]\<rparr>,
      ''kinetic_deriv1'' \<mapsto> \<lparr>axis2_len = 2, entries = [[[21, 22]]]\<rparr>,
      ''kinetic_deriv2'' \<mapsto> \<lparr>axis2_len = 3, entries = [[[23, 24, 25]]]\<rparr>,
      ''potential_deriv1'' \<mapsto> \<lparr>axis2_len = 2, entries = [[[31, 32]]]\<rparr>,
      ''potential_deriv2'' \<mapsto> \<lparr>axis2_len = 3, entries = [[[33, 34, 35]]]\<rparr>]"

definition example_env :: oei_env where
  "example_env =
     \<lparr>libint_overlap = [1], libint_kinetic = [2], libint_potential = [3],
      get_deriv_vec_idx = example_idx,
      oei_derivs_h5 = Some example_file\<rparr>"

subsection \<open>A closed-shell system with one basis function\<close>

text \<open>
  Two unit charges at distance one and a single basis function, so every matrix is
  \<open>1 \<times> 1\<close>: there the Cholesky factor is the square root, the inverse the reciprocal, and
  the eigenvalue the entry itself. The integrals are fixed numbers; the overlap is a
  parameter, and a negative overlap is a matrix that is not positive definite.
\<close>

definition mat_1x1 :: "fl \<Rightarrow> matrix" where
  "mat_1x1 x = \<lparr>nrows = 1, ncols = 1, rows = [[x]]\<rparr>"

definition cholesky_1x1 :: "matrix \<Rightarrow> matrix" where
  "cholesky_1x1 M = mat_1x1 (fsqrt (entry M 0 0))"

definition inv_1x1 :: "matrix \<Rightarrow> matrix" where
  "inv_1x1 M = mat_1x1 (fdiv (Fin 1) (entry M 0 0))"

definition eigh_1x1 :: "matrix \<Rightarrow> fvec \<times> matrix" where
  "eigh_1x1 M = ([entry M 0 0], mat_1x1 (Fin 1))"

definition one_function_env :: "real \<Rightarrow> scf_env" where
  "one_function_env ov =
     \<lparr>compute_integrals =
        (\<lambda>g b p z q k w.
           (mat_1x1 (Fin ov), mat_1x1 (Fin 1), mat_1x1 (Fin (- 2)), [[[[Fin (1 / 2)]]]])),
      linalg_cholesky = cholesky_1x1, linalg_inv = inv_1x1, linalg_eigh = eigh_1x1\<rparr>"

definition h2_env :: scf_env where
  "h2_env = one_function_env 1"

definition h2_args :: "int \<Rightarrow> bool \<Rightarrow> bool \<Rightarrow> rhf_args" where
  "h2_args mx dmp aux =
     \<lparr>geom = [0, 0, 0, 0, 0, 1], basis_name = ''sto-3g'', xyz_path = ''geom.xyz'',
      nuclear_charges = [1, 1], charge = 0,
      opts = \<lparr>maxit = mx, damping = dmp, damp_factor = 1 / 2, spectral_shift = True\<rparr>,
      deriv_order = 0, return_aux_data = aux, dmguess = None\<rparr>"

definition one_function_ctx :: "fl \<Rightarrow> fl \<Rightarrow> int \<Rightarrow> bool \<Rightarrow> bool \<Rightarrow> scf_ctx" where
  "one_function_ctx ov orth mx dmp aux =
     \<lparr>c_maxit = mx, c_damping = dmp, c_damp_factor = 1 / 2, c_convergence = 1 / 10 ^ 8,
      c_ndocc = 1, c_nbf = 1, c_S = mat_1x1 ov, c_H = mat_1x1 (Fin (- 1)), c_A = mat_1x1 orth,
      c_G = [[[[Fin (1 / 2)]]]], c_shift = mat_1x1 (Fin 0), c_Enuc = 1, c_eigh = eigh_1x1,
      c_return_aux_data = aux\<rparr>"

definition h2_ctx :: "int \<Rightarrow> bool \<Rightarrow> bool \<Rightarrow> scf_ctx" where
  "h2_ctx mx dmp aux = one_function_ctx (Fin 1) (Fin 1) mx dmp aux"

definition one_function_state ::
  "int \<Rightarrow> fl \<Rightarrow> fl \<Rightarrow> fl \<Rightarrow> fl \<Rightarrow> fl \<Rightarrow> fl \<Rightarrow> fl \<Rightarrow> fl \<Rightarrow> scf_state" where
  "one_function_state it e eo r d dold f cf ev =
     \<lparr>iteration = it, E_scf = e, E_old = eo, dRMS = r, s_D = mat_1x1 d, s_Dold = mat_1x1 dold,
      s_F = Some (mat_1x1 f), s_C = Some (mat_1x1 cf), s_eps = Some [ev]\<rparr>"

definition h2_state ::
  "int \<Rightarrow> real \<Rightarrow> real \<Rightarrow> real \<Rightarrow> real \<Rightarrow> real \<Rightarrow> real \<Rightarrow> scf_state" where
  "h2_state it e eo r d dold f =
     one_function_state it (Fin e) (Fin eo) (Fin r) (Fin d) (Fin dold) (Fin f) (Fin 1) (Fin f)"

definition h2_start :: scf_state where
  "h2_start =
     \<lparr>iteration = 0, E_scf = Fin 1, E_old = Fin 0, dRMS = Fin 1, s_D = mat_1x1 (Fin 0),
      s_Dold = mat_1x1 (Fin 0), s_F = None, s_C = None, s_eps = None\<rparr>"

subsection \<open>A system with two basis functions\<close>

text \<open>
  An overlap matrix with its Cholesky factor \<open>L\<close>, the inverse of \<open>L\<close> and the orthogonalizer
  \<open>A\<close> that the code derives from them, which is not symmetric; a Fock matrix \<open>ex_F\<close> and
  a density (the projector on the first column of \<open>A\<close>); a second Fock matrix \<open>ex_F2\<close>,
  which \<open>A\<close> transforms into a diagonal matrix. \<open>eigh_diagonal\<close> is the eigendecomposition
  of a diagonal \<open>2 \<times> 2\<close> matrix with ascending diagonal.
\<close>

definition fin_matrix :: "nat \<Rightarrow> nat \<Rightarrow> real list list \<Rightarrow> matrix" where
  "fin_matrix n m rs = \<lparr>nrows = n, ncols = m, rows = map (map Fin) rs\<rparr>"

definition ex_S :: matrix where
  "ex_S = fin_matrix 2 2 [[1, 1], [1, 2]]"

definition ex_L :: matrix where
  "ex_L = fin_matrix 2 2 [[1, 0], [1, 1]]"

definition ex_Linv :: matrix where
  "ex_Linv = fin_matrix 2 2 [[1, 0], [- 1, 1]]"

definition ex_A :: matrix where
  "ex_A = fin_matrix 2 2 [[1, - 1], [0, 1]]"

definition ex_F :: matrix where
  "ex_F = fin_matrix 2 2 [[1, 0], [0, 2]]"


definition ex_F2 :: matrix where
  "ex_F2 = fin_matrix 2 2 [[1, 1], [1, 3]]"

definition ex_H :: matrix where
  "ex_H = fin_matrix 2 2 [[1, 2], [0, 2]]"

definition ex_P :: matrix where
  "ex_P = fin_matrix 2 2 [[1, 2], [3, 4]]"

definition ex_G :: ftensor4 where
  "ex_G = replicate 2 (replicate 2 (replicate 2 (replicate 2 (Fin 0))))"

definition eigh_diagonal :: "matrix \<Rightarrow> fvec \<times> matrix" where
  "eigh_diagonal M = ([entry M 0 0, entry M 1 1], identity 2)"

definition ex_linalg :: scf_env where
  "ex_linalg =
     \<lparr>compute_integrals = (\<lambda>g b p z q k w. (ex_S, ex_F, zeros 2 2, ex_G)),
      linalg_cholesky = (\<lambda>M. ex_L), linalg_inv = (\<lambda>M. ex_Linv),
      linalg_eigh = eigh_diagonal\<rparr>"

definition ex_ctx :: "matrix \<Rightarrow> scf_ctx" where
  "ex_ctx H =
     \<lparr>c_maxit = 100, c_damping = False, c_damp_factor = 1 / 2, c_convergence = 1 / 10 ^ 10,
      c_ndocc = 1, c_nbf = 2, c_S = ex_S, c_H = H, c_A = ex_A, c_G = ex_G,
      c_shift = zeros 2 2, c_Enuc = 1, c_eigh = eigh_diagonal, c_return_aux_data = False\<rparr>"


section \<open>Properties of the integral primitives\<close>

lemma str_int_small:
  "str_int 0 = ''0''" "str_int 1 = ''1''" "str_int 2 = ''2''" "str_int 3 = ''3''"
  by (simp_all add: str_int_def str_nat.simps)

lemmas oei_defs =
  overlap_def overlap_impl_def overlap_deriv_def overlap_deriv_impl_def
  kinetic_def kinetic_impl_def kinetic_deriv_def kinetic_deriv_impl_def
  potential_def potential_impl_def potential_deriv_def potential_deriv_impl_def

lemmas example_defs =
  example_env_def example_file_def example_idx_def deriv_lookup_def np_asarray_int_def
  str_int_small slice_last_def isqrt_def reshape2_def

lemma jvp_rule_Inr:
  "jvp_rule f fd g t = Inr (p, tg) \<longleftrightarrow> f g = Inr p \<and> fd g t = Inr tg"
  by (auto simp: jvp_rule_def split: sum.splits)

lemma deriv_jvp_rule_Inr:
  "length u = length t \<Longrightarrow>
   deriv_jvp_rule fd (g, u) (t, t') = Inr (p, tg) \<longleftrightarrow> fd g u = Inr p \<and> fd g (map2 (+) u t) = Inr tg"
  by (auto simp: deriv_jvp_rule_def vec_add_def split: sum.splits)

text \<open>
  Claim C1. Forward-mode differentiation composes by adding derivative vectors: the JVP
  rule of each derivative evaluator returns a pair exactly when the evaluator succeeds at
  \<open>u\<close> and at \<open>u + t\<close>, and the pair is then the value at \<open>u\<close> (primal output) and the
  value at \<open>u + t\<close> (tangent output); the JVP rule of each base evaluator returns the base
  value and the derivative evaluator's value at the tangent \<open>t\<close>. Here \<open>u\<close> and \<open>t\<close> have
  one length, as a primal and its tangent do.
\<close>

theorem jvp_composition:
  assumes "length u = length t"
  shows "(overlap_deriv_jvp env (g, u) (t, t') = Inr (p, tg) \<longleftrightarrow>
            overlap_deriv env g u = Inr p \<and> overlap_deriv env g (map2 (+) u t) = Inr tg)
       \<and> (kinetic_deriv_jvp env (g, u) (t, t') = Inr (p, tg) \<longleftrightarrow>
            kinetic_deriv env g u = Inr p \<and> kinetic_deriv env g (map2 (+) u t) = Inr tg)
       \<and> (potential_deriv_jvp env (g, u) (t, t') = Inr (p, tg) \<longleftrightarrow>
            potential_deriv env g u = Inr p \<and> potential_deriv env g (map2 (+) u t) = Inr tg)
       \<and> (overlap_jvp env g t = Inr (p, tg) \<longleftrightarrow>
            overlap env g = Inr p \<and> overlap_deriv env g t = Inr tg)
       \<and> (kinetic_jvp env g t = Inr (p, tg) \<longleftrightarrow>
            kinetic env g = Inr p \<and> kinetic_deriv env g t = Inr tg)
       \<and> (potential_jvp env g t = Inr (p, tg) \<longleftrightarrow>
            potential env g = Inr p \<and> potential_deriv env g t = Inr tg)"
  using assms
  by (simp add: overlap_deriv_jvp_def kinetic_deriv_jvp_def potential_deriv_jvp_def
      overlap_jvp_def kinetic_jvp_def potential_jvp_def jvp_rule_Inr deriv_jvp_rule_Inr)

theorem jvp_composition_witness:
  "length [1, 0 :: real] = length [0, 1 :: real]
   \<and> overlap_deriv_jvp example_env ([0, 0], [1, 0]) ([0, 1], []) = Inr ([[11]], [[14]])
   \<and> overlap_jvp example_env [0, 0] [0, 1] = Inr ([[1]], [[12]])"
proof -
  have len: "length [1, 0 :: real] = length [0, 1 :: real]" by simp
  have p: "overlap_deriv example_env [0, 0] [1, 0] = Inr [[11]]"
    by (simp add: oei_defs example_defs)
  have t: "overlap_deriv example_env [0, 0] (map2 (+) [1, 0] [0, 1]) = Inr [[14]]"
    by (simp add: oei_defs example_defs)
  have b: "overlap example_env [0, 0] = Inr [[1]]"
    by (simp add: oei_defs example_defs)
  have d: "overlap_deriv example_env [0, 0] [0, 1] = Inr [[12]]"
    by (simp add: oei_defs example_defs)
  from jvp_composition [OF len, of example_env "[0, 0]" "[]" "[[11]]" "[[14]]"] p t
  have 1: "overlap_deriv_jvp example_env ([0, 0], [1, 0]) ([0, 1], []) = Inr ([[11]], [[14]])"
    by blast
  from jvp_composition [OF len, of example_env "[0, 0]" "[]" "[[1]]" "[[12]]"] b d
  have 2: "overlap_jvp example_env [0, 0] [0, 1] = Inr ([[1]], [[12]])"
    by blast
  from len 1 2 show ?thesis by blast
qed

lemma eval_each_Inr:
  "eval_each f vs = Inr rs \<longleftrightarrow> list_all2 (\<lambda>v r. f v = Inr r) vs rs"
proof (induction vs arbitrary: rs)
  case Nil
  show ?case by auto
next
  case (Cons v vs)
  show ?case
  proof (cases rs)
    case Nil
    then show ?thesis by (simp split: sum.splits)
  next
    case rs: (Cons r rest)
    have "eval_each f (v # vs) = Inr (r # rest) \<longleftrightarrow> f v = Inr r \<and> eval_each f vs = Inr rest"
      by (simp split: sum.splits)
    also have "\<dots> \<longleftrightarrow> f v = Inr r \<and> list_all2 (\<lambda>v r. f v = Inr r) vs rest"
      by (simp only: Cons.IH [of rest])
    finally show ?thesis using rs by simp
  qed
qed

lemma concatenate0_Inr:
  "concatenate0 rs = Inr st \<longleftrightarrow> rs \<noteq> [] \<and> st = rs \<and> (\<forall>i<length rs. same_shape (rs ! 0) (rs ! i))"
proof (cases rs)
  case Nil
  then show ?thesis by (simp add: concatenate0_def)
next
  case (Cons r rest)
  have "list_all (same_shape r) rest \<longleftrightarrow> (\<forall>i<length (r # rest). same_shape r ((r # rest) ! i))"
    by (auto simp: list_all_length nth_Cons same_shape_def split: nat.splits)
  then show ?thesis using Cons by (auto simp: concatenate0_def)
qed

lemma deriv_batch_rule_Inr:
  "deriv_batch_rule fd (g, vs) dims = Inr (rs, ax) \<longleftrightarrow>
     vs \<noteq> [] \<and> ax = 0 \<and> length rs = length vs
     \<and> (\<forall>i<length vs. fd g (vs ! i) = Inr (rs ! i))
     \<and> (\<forall>i<length rs. same_shape (rs ! 0) (rs ! i))"
proof -
  have "deriv_batch_rule fd (g, vs) dims = Inr (rs, ax) \<longleftrightarrow>
          eval_each (fd g) vs = Inr rs \<and> concatenate0 rs = Inr rs \<and> ax = 0"
  proof (cases "eval_each (fd g) vs")
    case (Inl e)
    then show ?thesis by (simp add: deriv_batch_rule_def)
  next
    case ev: (Inr results)
    show ?thesis
    proof (cases "concatenate0 results")
      case (Inl e)
      with ev show ?thesis by (auto simp: deriv_batch_rule_def)
    next
      case (Inr stacked)
      then have "stacked = results" by (simp add: concatenate0_Inr)
      with ev Inr show ?thesis by (auto simp: deriv_batch_rule_def)
    qed
  qed
  also have "\<dots> \<longleftrightarrow> list_all2 (\<lambda>v r. fd g v = Inr r) vs rs
                 \<and> rs \<noteq> [] \<and> (\<forall>i<length rs. same_shape (rs ! 0) (rs ! i)) \<and> ax = 0"
    by (auto simp: eval_each_Inr concatenate0_Inr)
  also have "\<dots> \<longleftrightarrow> vs \<noteq> [] \<and> ax = 0 \<and> length rs = length vs
     \<and> (\<forall>i<length vs. fd g (vs ! i) = Inr (rs ! i))
     \<and> (\<forall>i<length rs. same_shape (rs ! 0) (rs ! i))"
    by (auto simp: list_all2_conv_all_nth)
  finally show ?thesis .
qed

text \<open>
  Claim C6, as amended. The batching rule of each derivative evaluator returns a stack
  \<open>rs\<close> with batch axis \<open>ax\<close> exactly when the batch is not empty, \<open>ax = 0\<close>, the stack
  has one slice per derivative vector, slice \<open>i\<close> is the individual evaluation of the
  \<open>i\<close>-th vector against the same geometry, in the same order, and all slices have one
  shape.
\<close>

theorem batching_equivalence:
  "(overlap_deriv_batch env (g, vs) dims = Inr (rs, ax) \<longleftrightarrow>
      vs \<noteq> [] \<and> ax = 0 \<and> length rs = length vs
      \<and> (\<forall>i<length vs. overlap_deriv env g (vs ! i) = Inr (rs ! i))
      \<and> (\<forall>i<length rs. same_shape (rs ! 0) (rs ! i)))
 \<and> (kinetic_deriv_batch env (g, vs) dims = Inr (rs, ax) \<longleftrightarrow>
      vs \<noteq> [] \<and> ax = 0 \<and> length rs = length vs
      \<and> (\<forall>i<length vs. kinetic_deriv env g (vs ! i) = Inr (rs ! i))
      \<and> (\<forall>i<length rs. same_shape (rs ! 0) (rs ! i)))
 \<and> (potential_deriv_batch env (g, vs) dims = Inr (rs, ax) \<longleftrightarrow>
      vs \<noteq> [] \<and> ax = 0 \<and> length rs = length vs
      \<and> (\<forall>i<length vs. potential_deriv env g (vs ! i) = Inr (rs ! i))
      \<and> (\<forall>i<length rs. same_shape (rs ! 0) (rs ! i)))"
  by (simp only: overlap_deriv_batch_def kinetic_deriv_batch_def potential_deriv_batch_def
      deriv_batch_rule_Inr simp_thms)

text \<open>
  On an empty batch the loop collects nothing and the concatenation of no arrays is
  refused, so the rule returns no stack at all.
\<close>

theorem batching_empty_counterexample:
  "overlap_deriv_batch example_env ([0, 0], []) (None, Some 0) = Inl ValueError"
  by (simp add: overlap_deriv_batch_def deriv_batch_rule_def concatenate0_def)

theorem batching_equivalence_witness:
  "overlap_deriv_batch example_env ([0, 0], [[1, 0], [0, 1], [1, 1]]) (None, Some 0)
     = Inr ([[[11]], [[12]], [[14]]], 0)
   \<and> overlap_deriv example_env [0, 0] [1, 0] = Inr [[11]]
   \<and> overlap_deriv example_env [0, 0] [0, 1] = Inr [[12]]
   \<and> overlap_deriv example_env [0, 0] [1, 1] = Inr [[14]]"
proof -
  have e: "overlap_deriv example_env [0, 0] [1, 0] = Inr [[11]]"
    "overlap_deriv example_env [0, 0] [0, 1] = Inr [[12]]"
    "overlap_deriv example_env [0, 0] [1, 1] = Inr [[14]]"
    by (simp_all add: oei_defs example_defs)
  have "overlap_deriv_batch example_env ([0, 0], [[1, 0], [0, 1], [1, 1]]) (None, Some 0)
     = Inr ([[[11]], [[12]], [[14]]], 0)"
    using batching_equivalence [of example_env "[0, 0]" "[[1, 0], [0, 1], [1, 1]]" "(None, Some 0)"
        "[[[11]], [[12]], [[14]]]" 0] e
    by (simp add: All_less_Suc same_shape_def)
  with e show ?thesis by simp
qed

text \<open>
  A request of order three against the small store, which holds orders one and two: the
  evaluator fails with the KeyError of the dictionary lookup, not with
  \<open>MissingDerivativeDataError\<close>.
\<close>

theorem missing_dataset_counterexample:
  "oei_derivs_h5 example_env = Some example_file
   \<and> example_file (''overlap_deriv'' @ str_int (sum_list (np_asarray_int [2, 1]))) = None
   \<and> overlap_deriv example_env [0, 0] [2, 1] = Inl (KeyError ''overlap_deriv3'')
   \<and> overlap_deriv example_env [0, 0] [2, 1] \<noteq> Inl MissingDerivativeDataError"
  by (simp add: oei_defs example_defs)

text \<open>
  Claim C3, as amended. When the file opens and the index mapper accepts the derivative
  vector, a derivative evaluator whose dataset (kind and order) is absent from the file
  fails with the KeyError of the lookup, carrying the name of the dataset.
\<close>

theorem missing_dataset_key_error:
  assumes "oei_derivs_h5 env = Some f"
    and "get_deriv_vec_idx env (np_asarray_int v) = Inr idx"
    and "n = str_int (sum_list (np_asarray_int v))"
  shows "(f (''overlap_deriv'' @ n) = None \<longrightarrow>
            overlap_deriv env g v = Inl (KeyError (''overlap_deriv'' @ n)))
       \<and> (f (''kinetic_deriv'' @ n) = None \<longrightarrow>
            kinetic_deriv env g v = Inl (KeyError (''kinetic_deriv'' @ n)))
       \<and> (f (''potential_deriv'' @ n) = None \<longrightarrow>
            potential_deriv env g v = Inl (KeyError (''potential_deriv'' @ n)))"
  using assms by (simp add: oei_defs deriv_lookup_def)

theorem missing_dataset_key_error_witness:
  "oei_derivs_h5 example_env = Some example_file
   \<and> get_deriv_vec_idx example_env (np_asarray_int [2, 1]) = Inr 1
   \<and> example_file ''overlap_deriv3'' = None
   \<and> example_file ''kinetic_deriv3'' = None
   \<and> example_file ''potential_deriv3'' = None
   \<and> overlap_deriv example_env [0, 0] [2, 1] = Inl (KeyError ''overlap_deriv3'')
   \<and> kinetic_deriv example_env [0, 0] [2, 1] = Inl (KeyError ''kinetic_deriv3'')
   \<and> potential_deriv example_env [0, 0] [2, 1] = Inl (KeyError ''potential_deriv3'')"
proof -
  have a: "oei_derivs_h5 example_env = Some example_file"
    by (simp add: example_env_def)
  have b: "get_deriv_vec_idx example_env (np_asarray_int [2, 1]) = Inr 1"
    by (simp add: example_env_def example_idx_def np_asarray_int_def)
  have c: "''3'' = str_int (sum_list (np_asarray_int [2, 1]))"
    by (simp add: np_asarray_int_def str_int_small)
  have d: "example_file ''overlap_deriv3'' = None" "example_file ''kinetic_deriv3'' = None"
    "example_file ''potential_deriv3'' = None"
    by (simp_all add: example_file_def)
  show ?thesis
    using missing_dataset_key_error [OF a b c, of "[0, 0]"] a b d by simp
qed

text \<open>
  Claim C10. The derivative evaluators do not depend on the geometry argument: for one
  environment (index mapper and file contents) and one derivative vector, any two
  geometries give the same result, be it a matrix or an exception.
\<close>

theorem deriv_impl_geometry_independent:
  "overlap_deriv_impl env g1 v = overlap_deriv_impl env g2 v
   \<and> kinetic_deriv_impl env g1 v = kinetic_deriv_impl env g2 v
   \<and> potential_deriv_impl env g1 v = potential_deriv_impl env g2 v"
  by (simp add: overlap_deriv_impl_def kinetic_deriv_impl_def potential_deriv_impl_def)

section \<open>Properties of the self-consistent-field solver\<close>

subsection \<open>Floating-point arithmetic\<close>

lemma fl_arith [simp]:
  "Fin a + Fin b = Fin (a + b)" "NaN + x = NaN" "x + NaN = NaN"
  "Fin a - Fin b = Fin (a - b)" "NaN - x = NaN" "x - NaN = NaN"
  "Fin a * Fin b = Fin (a * b)" "NaN * x = NaN" "x * NaN = NaN"
  by (simp_all add: plus_fl_def minus_fl_def times_fl_def split: fl.splits)

lemma fl_funs [simp]:
  "fabs (Fin a) = Fin \<bar>a\<bar>" "fabs NaN = NaN"
  "fsqrt (Fin a) = (if a < 0 then NaN else Fin (sqrt a))" "fsqrt NaN = NaN"
  "fdiv (Fin a) (Fin b) = (if b = 0 then NaN else Fin (a / b))" "fdiv NaN y = NaN" "fdiv x NaN = NaN"
  by (simp_all add: fabs_def fsqrt_def fdiv_def split: fl.splits)

lemma fl_compare [simp]:
  "fgt (Fin a) (Fin b) \<longleftrightarrow> a > b" "\<not> fgt NaN y" "\<not> fgt x NaN"
  "fle (Fin a) (Fin b) \<longleftrightarrow> a \<le> b" "\<not> fle NaN y" "\<not> fle x NaN"
  by (simp_all add: fgt_def fle_def split: fl.splits)

lemma not_fgt_iff_fle: "x \<noteq> NaN \<Longrightarrow> y \<noteq> NaN \<Longrightarrow> \<not> fgt x y \<longleftrightarrow> fle x y"
  by (cases x; cases y) auto

lemma fabs_NaN_iff [simp]: "fabs x = NaN \<longleftrightarrow> x = NaN"
  by (cases x) simp_all

lemmas fl_numerals = zero_fl_def one_fl_def

lemma sum_Fin: "(\<Sum>k<n::nat. Fin (f k)) = Fin (\<Sum>k<n. f k)"
  by (induction n) (simp_all add: zero_fl_def)

lemma sum_distrib_right_fl: "0 < (n::nat) \<Longrightarrow> (\<Sum>k<n. f k) * (z::fl) = (\<Sum>k<n. f k * z)"
proof (induction n)
  case 0
  then show ?case by simp
next
  case (Suc n)
  show ?case
  proof (cases "n = 0")
    case True
    then show ?thesis by simp
  next
    case False
    with Suc show ?thesis by (simp add: distrib_right)
  qed
qed

lemma sum_distrib_left_fl: "0 < (n::nat) \<Longrightarrow> (z::fl) * (\<Sum>k<n. f k) = (\<Sum>k<n. z * f k)"
  using sum_distrib_right_fl [of n f z] by (simp add: mult.commute)

subsection \<open>The loop and its exits\<close>

lemma iteration_scf_body: "iteration (scf_body c s) = iteration s + 1"
  by (simp add: scf_body_def Let_def split: prod.splits)

lemma iteration_funpow: "iteration ((scf_body c ^^ n) s) = iteration s + int n"
  by (induction n) (simp_all add: iteration_scf_body)

lemma scf_loop_stop: "\<not> loop_condition c s \<Longrightarrow> scf_loop c s = Some s"
  by (subst scf_loop.simps) simp

lemma scf_loop_step:
  "loop_condition c s \<Longrightarrow>
   scf_loop c s = (if loop_exit c (scf_body c s) then Some (scf_body c s) else scf_loop c (scf_body c s))"
  by (subst scf_loop.simps) (auto simp: loop_exit_def Let_def scf_loop_stop)

lemma scf_loop_complete:
  "loop_condition c s \<Longrightarrow> loop_exit c ((scf_body c ^^ Suc k) s) \<Longrightarrow>
   (\<forall>m. 1 \<le> m \<and> m < Suc k \<longrightarrow> \<not> loop_exit c ((scf_body c ^^ m) s)) \<Longrightarrow>
   scf_loop c s = Some ((scf_body c ^^ Suc k) s)"
proof (induction k arbitrary: s)
  case 0
  then show ?case by (simp add: scf_loop_step)
next
  case (Suc k)
  have ne: "\<not> loop_exit c (scf_body c s)"
    using Suc.prems(3) [rule_format, of 1] by simp
  then have lc: "loop_condition c (scf_body c s)" by (simp add: loop_exit_def)
  have ex: "loop_exit c ((scf_body c ^^ Suc k) (scf_body c s))"
    using Suc.prems(2) by (simp add: funpow_swap1)
  have nx: "\<forall>m. 1 \<le> m \<and> m < Suc k \<longrightarrow> \<not> loop_exit c ((scf_body c ^^ m) (scf_body c s))"
  proof (intro allI impI)
    fix m assume "1 \<le> m \<and> m < Suc k"
    then have "\<not> loop_exit c ((scf_body c ^^ Suc m) s)"
      using Suc.prems(3) [rule_format, of "Suc m"] by simp
    then show "\<not> loop_exit c ((scf_body c ^^ m) (scf_body c s))"
      by (simp add: funpow_swap1)
  qed
  have "scf_loop c s = scf_loop c (scf_body c s)"
    using Suc.prems(1) ne by (simp add: scf_loop_step)
  also have "\<dots> = Some ((scf_body c ^^ Suc k) (scf_body c s))"
    by (rule Suc.IH [OF lc ex nx])
  finally show ?case by (simp add: funpow_swap1)
qed

lemma scf_loop_sound:
  assumes "scf_loop c s = Some t"
  shows "if loop_condition c s
         then \<exists>n\<ge>1. t = (scf_body c ^^ n) s \<and> loop_exit c ((scf_body c ^^ n) s)
                \<and> (\<forall>m. 1 \<le> m \<and> m < n \<longrightarrow> \<not> loop_exit c ((scf_body c ^^ m) s))
         else t = s"
proof -
  let ?P = "\<lambda>c s t. if loop_condition c s
         then \<exists>n\<ge>1. t = (scf_body c ^^ n) s \<and> loop_exit c ((scf_body c ^^ n) s)
                \<and> (\<forall>m. 1 \<le> m \<and> m < n \<longrightarrow> \<not> loop_exit c ((scf_body c ^^ m) s))
         else t = s"
  have "?P c s t"
  proof (rule scf_loop.raw_induct [where P = ?P, OF _ assms], goal_cases)
  case (1 loop c s t)
  show ?case
  proof (cases "loop_condition c s")
    case False
    with 1(2) show ?thesis by simp
  next
    case lc: True
    let ?s' = "scf_body c s"
    show ?thesis
    proof (cases "loop_exit c ?s'")
      case True
      have "t = ?s'"
      proof (cases "iteration ?s' = c_maxit c")
        case True
        with 1(2) lc show ?thesis by (simp add: Let_def)
      next
        case False
        with True have nlc: "\<not> loop_condition c ?s'" by (simp add: loop_exit_def)
        from 1(2) lc False have "loop c ?s' = Some t" by (simp add: Let_def)
        from 1(1) [OF this] nlc show ?thesis by simp
      qed
      with True have "t = (scf_body c ^^ 1) s \<and> loop_exit c ((scf_body c ^^ 1) s)
          \<and> (\<forall>m. 1 \<le> m \<and> m < 1 \<longrightarrow> \<not> loop_exit c ((scf_body c ^^ m) s))"
        by simp
      then have "\<exists>n\<ge>1. t = (scf_body c ^^ n) s \<and> loop_exit c ((scf_body c ^^ n) s)
          \<and> (\<forall>m. 1 \<le> m \<and> m < n \<longrightarrow> \<not> loop_exit c ((scf_body c ^^ m) s))"
        by (intro exI [of _ 1]) simp
      with lc show ?thesis by simp
    next
      case ne: False
      then have ni: "iteration ?s' \<noteq> c_maxit c" and lc': "loop_condition c ?s'"
        by (simp_all add: loop_exit_def)
      from 1(2) lc ni have "loop c ?s' = Some t" by (simp add: Let_def)
      from 1(1) [OF this] lc' obtain n where n: "1 \<le> n" "t = (scf_body c ^^ n) ?s'"
        "loop_exit c ((scf_body c ^^ n) ?s')"
        "\<forall>m. 1 \<le> m \<and> m < n \<longrightarrow> \<not> loop_exit c ((scf_body c ^^ m) ?s')"
        by auto
      have a: "t = (scf_body c ^^ Suc n) s" using n(2) by (simp add: funpow_swap1)
      have b: "loop_exit c ((scf_body c ^^ Suc n) s)" using n(3) by (simp add: funpow_swap1)
      have d: "\<forall>m. 1 \<le> m \<and> m < Suc n \<longrightarrow> \<not> loop_exit c ((scf_body c ^^ m) s)"
      proof (intro allI impI)
        fix m assume m: "1 \<le> m \<and> m < Suc n"
        show "\<not> loop_exit c ((scf_body c ^^ m) s)"
        proof (cases m)
          case 0
          with m show ?thesis by simp
        next
          case (Suc k)
          show ?thesis
          proof (cases k)
            case 0
            with Suc ne show ?thesis by simp
          next
            case (Suc j)
            with \<open>m = Suc k\<close> m have "1 \<le> k \<and> k < n" by simp
            with n(4) have "\<not> loop_exit c ((scf_body c ^^ k) ?s')" by blast
            with \<open>m = Suc k\<close> show ?thesis by (simp add: funpow_swap1)
          qed
        qed
      qed
      have "\<exists>n\<ge>1. t = (scf_body c ^^ n) s \<and> loop_exit c ((scf_body c ^^ n) s)
          \<and> (\<forall>m. 1 \<le> m \<and> m < n \<longrightarrow> \<not> loop_exit c ((scf_body c ^^ m) s))"
        using a b d by (intro exI [of _ "Suc n"]) simp
      with lc show ?thesis by simp
    qed
  qed
  qed
  then show ?thesis .
qed

lemma scf_loop_iff:
  assumes "loop_condition c s"
  shows "scf_loop c s = Some t \<longleftrightarrow>
         (\<exists>n\<ge>1. t = (scf_body c ^^ n) s \<and> loop_exit c ((scf_body c ^^ n) s)
                \<and> (\<forall>m. 1 \<le> m \<and> m < n \<longrightarrow> \<not> loop_exit c ((scf_body c ^^ m) s)))"
proof
  assume "scf_loop c s = Some t"
  from scf_loop_sound [OF this] assms show "\<exists>n\<ge>1. t = (scf_body c ^^ n) s \<and> loop_exit c ((scf_body c ^^ n) s)
                \<and> (\<forall>m. 1 \<le> m \<and> m < n \<longrightarrow> \<not> loop_exit c ((scf_body c ^^ m) s))"
    by simp
next
  assume "\<exists>n\<ge>1. t = (scf_body c ^^ n) s \<and> loop_exit c ((scf_body c ^^ n) s)
                \<and> (\<forall>m. 1 \<le> m \<and> m < n \<longrightarrow> \<not> loop_exit c ((scf_body c ^^ m) s))"
  then obtain n where n: "1 \<le> n" "t = (scf_body c ^^ n) s" "loop_exit c ((scf_body c ^^ n) s)"
    "\<forall>m. 1 \<le> m \<and> m < n \<longrightarrow> \<not> loop_exit c ((scf_body c ^^ m) s)"
    by blast
  from n(1) obtain k where k: "n = Suc k" by (cases n) auto
  from scf_loop_complete [OF assms n(3) [unfolded k] n(4) [unfolded k]] n(2) k
  show "scf_loop c s = Some t" by simp
qed

lemma rhf_setup_Inr:
  assumes "rhf_setup env a = Inr (c, s0)"
  shows "iteration s0 = 0" "E_scf s0 = Fin 1" "E_old s0 = Fin 0" "dRMS s0 = Fin 1"
    "s_F s0 = None" "s_C s0 = None" "s_eps s0 = None"
    "c_convergence c = (if spectral_shift (opts a) then 1 / 10 ^ 8 else 1 / 10 ^ 10)"
    "c_maxit c = maxit (opts a)" "c_damping c = damping (opts a)"
    "c_damp_factor c = damp_factor (opts a)"
    "c_return_aux_data c = return_aux_data a"
    "c_eigh c = linalg_eigh env"
  using assms
  by (auto simp: rhf_setup_def Let_def split: prod.splits sum.splits)

lemma rhf_setup_loop_condition:
  assumes "rhf_setup env a = Inr (c, s0)"
  shows "loop_condition c s0"
  using rhf_setup_Inr [OF assms] by (simp add: loop_condition_def)

lemma loop_exit_iff:
  "loop_exit c u \<longleftrightarrow>
     (iteration u = c_maxit c
      \<or> \<not> fgt (fabs (E_scf u - E_old u)) (Fin (c_convergence c))
        \<and> \<not> fgt (dRMS u) (Fin (c_convergence c)))"
  by (auto simp: loop_exit_def loop_condition_def)


text \<open>
  Claim C2, as amended. The convergence threshold is \<open>1e-10\<close>, and \<open>1e-8\<close> when the
  spectral shift is enabled. The loop, started as the function starts it, terminates in
  the state \<open>t\<close> exactly when \<open>t\<close> is the state after \<open>n \<ge> 1\<close> passes, the iteration count
  then being \<open>n\<close>, such that after these \<open>n\<close> passes the count equals \<open>maxit\<close> or neither of
  the tests \<open>|E_scf - E_old| > convergence\<close> and \<open>dRMS > convergence\<close> is true, and after no
  smaller number of passes either was the case. When the energy difference and \<open>dRMS\<close>
  are not NaN, neither test being true means that \<open>|E_scf - E_old| \<le> convergence\<close> and
  \<open>dRMS \<le> convergence\<close> both hold; a NaN makes its test false without being below the
  threshold.
\<close>

theorem scf_loop_exit_exact:
  assumes "rhf_setup env a = Inr (c, s0)"
  shows "c_convergence c = (if spectral_shift (opts a) then 1 / 10 ^ 8 else 1 / 10 ^ 10)
    \<and> (scf_loop c s0 = Some t \<longleftrightarrow>
         (\<exists>n\<ge>1. t = (scf_body c ^^ n) s0 \<and> iteration t = int n
            \<and> (iteration t = c_maxit c
                 \<or> \<not> fgt (fabs (E_scf t - E_old t)) (Fin (c_convergence c))
                   \<and> \<not> fgt (dRMS t) (Fin (c_convergence c)))
            \<and> (\<forall>m. 1 \<le> m \<and> m < n \<longrightarrow>
                  \<not> (iteration ((scf_body c ^^ m) s0) = c_maxit c
                      \<or> \<not> fgt (fabs (E_scf ((scf_body c ^^ m) s0) - E_old ((scf_body c ^^ m) s0)))
                               (Fin (c_convergence c))
                        \<and> \<not> fgt (dRMS ((scf_body c ^^ m) s0)) (Fin (c_convergence c))))))
    \<and> (E_scf t - E_old t \<noteq> NaN \<and> dRMS t \<noteq> NaN \<longrightarrow>
         (\<not> fgt (fabs (E_scf t - E_old t)) (Fin (c_convergence c))
            \<and> \<not> fgt (dRMS t) (Fin (c_convergence c))
          \<longleftrightarrow> fle (fabs (E_scf t - E_old t)) (Fin (c_convergence c))
            \<and> fle (dRMS t) (Fin (c_convergence c))))"
proof -
  have it: "\<And>n. iteration ((scf_body c ^^ n) s0) = int n"
    using rhf_setup_Inr(1) [OF assms] by (simp add: iteration_funpow)
  have "scf_loop c s0 = Some t \<longleftrightarrow>
         (\<exists>n\<ge>1. t = (scf_body c ^^ n) s0 \<and> loop_exit c ((scf_body c ^^ n) s0)
                \<and> (\<forall>m. 1 \<le> m \<and> m < n \<longrightarrow> \<not> loop_exit c ((scf_body c ^^ m) s0)))"
    by (rule scf_loop_iff [OF rhf_setup_loop_condition [OF assms]])
  also have "\<dots> \<longleftrightarrow> (\<exists>n\<ge>1. t = (scf_body c ^^ n) s0 \<and> iteration t = int n
            \<and> loop_exit c t
            \<and> (\<forall>m. 1 \<le> m \<and> m < n \<longrightarrow> \<not> loop_exit c ((scf_body c ^^ m) s0)))"
    using it by auto
  finally have main: "scf_loop c s0 = Some t \<longleftrightarrow>
         (\<exists>n\<ge>1. t = (scf_body c ^^ n) s0 \<and> iteration t = int n
            \<and> (iteration t = c_maxit c
                 \<or> \<not> fgt (fabs (E_scf t - E_old t)) (Fin (c_convergence c))
                   \<and> \<not> fgt (dRMS t) (Fin (c_convergence c)))
            \<and> (\<forall>m. 1 \<le> m \<and> m < n \<longrightarrow>
                  \<not> (iteration ((scf_body c ^^ m) s0) = c_maxit c
                      \<or> \<not> fgt (fabs (E_scf ((scf_body c ^^ m) s0) - E_old ((scf_body c ^^ m) s0)))
                               (Fin (c_convergence c))
                        \<and> \<not> fgt (dRMS ((scf_body c ^^ m) s0)) (Fin (c_convergence c)))))"
    by (simp only: loop_exit_iff)
  have le: "E_scf t - E_old t \<noteq> NaN \<and> dRMS t \<noteq> NaN \<longrightarrow>
         (\<not> fgt (fabs (E_scf t - E_old t)) (Fin (c_convergence c))
            \<and> \<not> fgt (dRMS t) (Fin (c_convergence c))
          \<longleftrightarrow> fle (fabs (E_scf t - E_old t)) (Fin (c_convergence c))
            \<and> fle (dRMS t) (Fin (c_convergence c)))"
    by (simp add: not_fgt_iff_fle)
  from rhf_setup_Inr(8) [OF assms] main le show ?thesis by blast
qed

subsection \<open>The example runs\<close>

lemmas matrix_defs = mat_1x1_def fin_matrix_def entry_def col_def transpose_m_def inner_def dot_def
  mat_add_def mat_sub_def scale_def zeros_def diag_def identity_def einsum_pq_pq_def
  einsum_ij_jk_kl_def py_slice_to_def columns_to_def rms_def fl_numerals power2_eq_square

lemmas body_defs = scf_body_def damp_density_def build_fock_def
  jk_build_def tensordot_01_def transpose_0213_def swap_axes_def rhf_iter_def diis_error_def

lemma one_function_setup:
  "rhf_setup (one_function_env ov) (h2_args mx dmp aux)
     = Inr (one_function_ctx (Fin ov) (fdiv (Fin 1) (fsqrt (Fin ov))) mx dmp aux, h2_start)"
  by (simp add: rhf_setup_def one_function_env_def h2_args_def one_function_ctx_def h2_start_def
      cholesky_orthogonalization_def cholesky_1x1_def inv_1x1_def py_int_def linspace01_def
      reshape_m1_3_def nuclear_repulsion_def norm_vec_def matrix_defs Let_def)

lemma h2_setup: "rhf_setup h2_env (h2_args mx dmp aux) = Inr (h2_ctx mx dmp aux, h2_start)"
  by (simp add: h2_env_def h2_ctx_def one_function_setup)

lemma nonpd_setup:
  "rhf_setup (one_function_env (- 1)) (h2_args mx dmp aux)
     = Inr (one_function_ctx (Fin (- 1)) NaN mx dmp aux, h2_start)"
  by (simp add: one_function_setup)

lemma h2_body_start: "scf_body (h2_ctx mx False aux) h2_start = h2_state 1 0 1 1 1 0 (- 1)"
  by (simp add: body_defs h2_ctx_def one_function_ctx_def h2_start_def h2_state_def
      one_function_state_def eigh_1x1_def matrix_defs Let_def)

lemma h2_body_state:
  "scf_body (h2_ctx mx False aux) (h2_state it e eo r d dold f) =
     h2_state (it + 1) ((d / 2 - 2) * d) e (if it > 1 then 0 else r) 1 dold (d / 2 - 1)"
  by (simp add: body_defs h2_ctx_def one_function_ctx_def h2_state_def one_function_state_def
      eigh_1x1_def matrix_defs Let_def algebra_simps)

lemma h2_passes:
  "(scf_body (h2_ctx mx False aux) ^^ 1) h2_start = h2_state 1 0 1 1 1 0 (- 1)"
  "(scf_body (h2_ctx mx False aux) ^^ 2) h2_start = h2_state 2 (- 3 / 2) 0 1 1 0 (- 1 / 2)"
  "(scf_body (h2_ctx mx False aux) ^^ 3) h2_start = h2_state 3 (- 3 / 2) (- 3 / 2) 0 1 0 (- 1 / 2)"
  by (simp_all add: numeral_2_eq_2 numeral_3_eq_3 h2_body_start h2_body_state)

lemma nonpd_body_start:
  "scf_body (one_function_ctx (Fin (- 1)) NaN mx False aux) h2_start
     = one_function_state 1 (Fin 0) (Fin 1) (Fin 1) NaN (Fin 0) (Fin (- 1)) NaN NaN"
  by (simp add: body_defs one_function_ctx_def h2_start_def one_function_state_def
      eigh_1x1_def matrix_defs Let_def)

lemma nonpd_body_2:
  "scf_body (one_function_ctx (Fin (- 1)) NaN mx False aux)
     (one_function_state 1 (Fin 0) (Fin 1) (Fin 1) NaN (Fin 0) (Fin (- 1)) NaN NaN)
     = one_function_state 2 NaN (Fin 0) (Fin 1) NaN (Fin 0) NaN NaN NaN"
  by (simp add: body_defs one_function_ctx_def one_function_state_def
      eigh_1x1_def matrix_defs Let_def)

lemma nonpd_body_3:
  "scf_body (one_function_ctx (Fin (- 1)) NaN mx False aux)
     (one_function_state 2 NaN (Fin 0) (Fin 1) NaN (Fin 0) NaN NaN NaN)
     = one_function_state 3 NaN NaN NaN NaN (Fin 0) NaN NaN NaN"
  by (simp add: body_defs one_function_ctx_def one_function_state_def
      eigh_1x1_def matrix_defs Let_def)

lemma nonpd_passes:
  "(scf_body (one_function_ctx (Fin (- 1)) NaN mx False aux) ^^ 1) h2_start
     = one_function_state 1 (Fin 0) (Fin 1) (Fin 1) NaN (Fin 0) (Fin (- 1)) NaN NaN"
  "(scf_body (one_function_ctx (Fin (- 1)) NaN mx False aux) ^^ 2) h2_start
     = one_function_state 2 NaN (Fin 0) (Fin 1) NaN (Fin 0) NaN NaN NaN"
  "(scf_body (one_function_ctx (Fin (- 1)) NaN mx False aux) ^^ 3) h2_start
     = one_function_state 3 NaN NaN NaN NaN (Fin 0) NaN NaN NaN"
  by (simp_all add: numeral_2_eq_2 numeral_3_eq_3 nonpd_body_start nonpd_body_2 nonpd_body_3)

lemma h2_early:
  assumes "1 \<le> m \<and> m < 3"
  shows "dRMS ((scf_body (h2_ctx mx False aux) ^^ m) h2_start) = Fin 1"
    and "iteration ((scf_body (h2_ctx mx False aux) ^^ m) h2_start) = int m"
proof -
  from assms have "m = 1 \<or> m = 2" by arith
  then show "dRMS ((scf_body (h2_ctx mx False aux) ^^ m) h2_start) = Fin 1"
    and "iteration ((scf_body (h2_ctx mx False aux) ^^ m) h2_start) = int m"
    by (auto simp only: h2_passes) (simp_all add: h2_state_def one_function_state_def)
qed

lemma h2_convergence:
  "c_convergence (h2_ctx mx dmp aux) = 1 / 10 ^ 8" "c_maxit (h2_ctx mx dmp aux) = mx"
  "c_nbf (h2_ctx mx dmp aux) = 1" "c_G (h2_ctx mx dmp aux) = [[[[Fin (1 / 2)]]]]"
  by (simp_all add: h2_ctx_def one_function_ctx_def)

lemma nonpd_early:
  assumes "1 \<le> m \<and> m < 3"
  shows "dRMS ((scf_body (one_function_ctx (Fin (- 1)) NaN mx False aux) ^^ m) h2_start) = Fin 1"
    and "iteration ((scf_body (one_function_ctx (Fin (- 1)) NaN mx False aux) ^^ m) h2_start) = int m"
proof -
  from assms have "m = 1 \<or> m = 2" by arith
  then show "dRMS ((scf_body (one_function_ctx (Fin (- 1)) NaN mx False aux) ^^ m) h2_start) = Fin 1"
    and "iteration ((scf_body (one_function_ctx (Fin (- 1)) NaN mx False aux) ^^ m) h2_start) = int m"
    by (auto simp only: nonpd_passes) (simp_all add: one_function_state_def)
qed

theorem scf_loop_exit_exact_witness:
  "rhf_setup h2_env (h2_args 100 False False) = Inr (h2_ctx 100 False False, h2_start)
   \<and> c_convergence (h2_ctx 100 False False) = 1 / 10 ^ 8
   \<and> scf_loop (h2_ctx 100 False False) h2_start = Some (h2_state 3 (- 3 / 2) (- 3 / 2) 0 1 0 (- 1 / 2))
   \<and> scf_loop (h2_ctx 2 False False) h2_start = Some (h2_state 2 (- 3 / 2) 0 1 1 0 (- 1 / 2))"
proof -
  let ?c = "h2_ctx 100 False False" and ?t = "h2_state 3 (- 3 / 2) (- 3 / 2) 0 1 0 (- 1 / 2)"
  note cv = h2_convergence(1) and mx = h2_convergence(2)
  have a: "?t = (scf_body ?c ^^ 3) h2_start" by (simp only: h2_passes)
  have b: "iteration ?t = int 3"
    "\<not> fgt (fabs (E_scf ?t - E_old ?t)) (Fin (c_convergence ?c)) \<and> \<not> fgt (dRMS ?t) (Fin (c_convergence ?c))"
    by (simp_all add: h2_state_def one_function_state_def cv)
  have d: "\<forall>m. 1 \<le> m \<and> m < 3 \<longrightarrow>
                  \<not> (iteration ((scf_body ?c ^^ m) h2_start) = c_maxit ?c
                      \<or> \<not> fgt (fabs (E_scf ((scf_body ?c ^^ m) h2_start) - E_old ((scf_body ?c ^^ m) h2_start)))
                               (Fin (c_convergence ?c))
                        \<and> \<not> fgt (dRMS ((scf_body ?c ^^ m) h2_start)) (Fin (c_convergence ?c)))"
    by (simp add: h2_early cv mx)
  from a b d have "\<exists>n\<ge>1. ?t = (scf_body ?c ^^ n) h2_start \<and> iteration ?t = int n
            \<and> (iteration ?t = c_maxit ?c
                 \<or> \<not> fgt (fabs (E_scf ?t - E_old ?t)) (Fin (c_convergence ?c))
                   \<and> \<not> fgt (dRMS ?t) (Fin (c_convergence ?c)))
            \<and> (\<forall>m. 1 \<le> m \<and> m < n \<longrightarrow>
                  \<not> (iteration ((scf_body ?c ^^ m) h2_start) = c_maxit ?c
                      \<or> \<not> fgt (fabs (E_scf ((scf_body ?c ^^ m) h2_start) - E_old ((scf_body ?c ^^ m) h2_start)))
                               (Fin (c_convergence ?c))
                        \<and> \<not> fgt (dRMS ((scf_body ?c ^^ m) h2_start)) (Fin (c_convergence ?c))))"
    by (intro exI [of _ 3]) simp
  with scf_loop_exit_exact [OF h2_setup, of 100 False False ?t]
  have 1: "scf_loop ?c h2_start = Some ?t"
    by blast
  let ?d = "h2_ctx 2 False False" and ?u = "h2_state 2 (- 3 / 2) 0 1 1 0 (- 1 / 2)"
  have a': "?u = (scf_body ?d ^^ 2) h2_start" by (simp only: h2_passes)
  have b': "iteration ?u = int 2" "iteration ?u = c_maxit ?d"
    by (simp_all add: h2_state_def one_function_state_def mx)
  have d': "\<forall>m. 1 \<le> m \<and> m < 2 \<longrightarrow>
                  \<not> (iteration ((scf_body ?d ^^ m) h2_start) = c_maxit ?d
                      \<or> \<not> fgt (fabs (E_scf ((scf_body ?d ^^ m) h2_start) - E_old ((scf_body ?d ^^ m) h2_start)))
                               (Fin (c_convergence ?d))
                        \<and> \<not> fgt (dRMS ((scf_body ?d ^^ m) h2_start)) (Fin (c_convergence ?d)))"
    by (simp add: h2_early cv mx)
  from a' b' d' have "\<exists>n\<ge>1. ?u = (scf_body ?d ^^ n) h2_start \<and> iteration ?u = int n
            \<and> (iteration ?u = c_maxit ?d
                 \<or> \<not> fgt (fabs (E_scf ?u - E_old ?u)) (Fin (c_convergence ?d))
                   \<and> \<not> fgt (dRMS ?u) (Fin (c_convergence ?d)))
            \<and> (\<forall>m. 1 \<le> m \<and> m < n \<longrightarrow>
                  \<not> (iteration ((scf_body ?d ^^ m) h2_start) = c_maxit ?d
                      \<or> \<not> fgt (fabs (E_scf ((scf_body ?d ^^ m) h2_start) - E_old ((scf_body ?d ^^ m) h2_start)))
                               (Fin (c_convergence ?d))
                        \<and> \<not> fgt (dRMS ((scf_body ?d ^^ m) h2_start)) (Fin (c_convergence ?d))))"
    by (intro exI [of _ 2]) simp
  with scf_loop_exit_exact [OF h2_setup, of 2 False False ?u]
  have 2: "scf_loop ?d h2_start = Some ?u"
    by blast
  from cv 1 2 h2_setup show ?thesis by simp
qed

text \<open>
  An overlap matrix that is not positive definite: its Cholesky factor is NaN, and so is
  everything computed with it. After three passes the energy and \<open>dRMS\<close> are NaN, both
  tests of the loop are false and the loop is left, with the count at 3 and \<open>maxit\<close> at
  100, although neither \<open>|E_scf - E_old| \<le> convergence\<close> nor \<open>dRMS \<le> convergence\<close> holds.
\<close>

theorem scf_loop_exit_counterexample:
  "rhf_setup (one_function_env (- 1)) (h2_args 100 False False)
     = Inr (one_function_ctx (Fin (- 1)) NaN 100 False False, h2_start)
   \<and> scf_loop (one_function_ctx (Fin (- 1)) NaN 100 False False) h2_start
       = Some (one_function_state 3 NaN NaN NaN NaN (Fin 0) NaN NaN NaN)
   \<and> iteration (one_function_state 3 NaN NaN NaN NaN (Fin 0) NaN NaN NaN) = 3
   \<and> c_maxit (one_function_ctx (Fin (- 1)) NaN 100 False False) = 100
   \<and> \<not> fle (fabs (E_scf (one_function_state 3 NaN NaN NaN NaN (Fin 0) NaN NaN NaN)
                   - E_old (one_function_state 3 NaN NaN NaN NaN (Fin 0) NaN NaN NaN)))
            (Fin (c_convergence (one_function_ctx (Fin (- 1)) NaN 100 False False)))
   \<and> \<not> fle (dRMS (one_function_state 3 NaN NaN NaN NaN (Fin 0) NaN NaN NaN))
            (Fin (c_convergence (one_function_ctx (Fin (- 1)) NaN 100 False False)))"
proof -
  let ?c = "one_function_ctx (Fin (- 1)) NaN 100 False False"
  let ?t = "one_function_state 3 NaN NaN NaN NaN (Fin 0) NaN NaN NaN"
  have cv: "c_convergence ?c = 1 / 10 ^ 8" and mx: "c_maxit ?c = 100"
    by (simp_all add: one_function_ctx_def)
  have lc: "loop_condition ?c h2_start"
    by (rule rhf_setup_loop_condition [OF nonpd_setup])
  have s3: "Suc 2 = (3::nat)" by simp
  have p3: "(scf_body ?c ^^ Suc 2) h2_start = ?t"
    unfolding s3 by (rule nonpd_passes(3))
  have ex: "loop_exit ?c ((scf_body ?c ^^ Suc 2) h2_start)"
    unfolding p3 by (simp add: loop_exit_iff one_function_state_def)
  have ne: "\<forall>m. 1 \<le> m \<and> m < Suc 2 \<longrightarrow> \<not> loop_exit ?c ((scf_body ?c ^^ m) h2_start)"
    unfolding s3 by (simp add: loop_exit_iff nonpd_early cv mx)
  have run: "scf_loop ?c h2_start = Some ?t"
    using scf_loop_complete [OF lc ex ne] unfolding p3 .
  have rest: "iteration ?t = 3"
    "\<not> fle (fabs (E_scf ?t - E_old ?t)) (Fin (c_convergence ?c))"
    "\<not> fle (dRMS ?t) (Fin (c_convergence ?c))"
    by (simp_all add: one_function_state_def)
  from nonpd_setup run rest mx show ?thesis by blast
qed

subsection \<open>Reaching the iteration limit\<close>

lemma scf_body_bound:
  "\<exists>C eps. s_C (scf_body c s) = Some C \<and> s_eps (scf_body c s) = Some eps"
  by (simp add: scf_body_def Let_def split: prod.splits)

lemma scf_passes_bound:
  assumes "1 \<le> n"
  shows "\<exists>C eps. s_C ((scf_body c ^^ n) s) = Some C \<and> s_eps ((scf_body c ^^ n) s) = Some eps"
proof (cases n)
  case 0
  with assms show ?thesis by simp
next
  case (Suc k)
  with scf_body_bound [of c "(scf_body c ^^ k) s"] show ?thesis by simp
qed

lemma scf_loop_terminates:
  assumes lc: "loop_condition c s" and it: "iteration s = 0" and mx: "1 \<le> c_maxit c"
  shows "\<exists>n. 1 \<le> n \<and> int n \<le> c_maxit c \<and> scf_loop c s = Some ((scf_body c ^^ n) s)
            \<and> (\<forall>m. 1 \<le> m \<and> m < n \<longrightarrow> \<not> loop_exit c ((scf_body c ^^ m) s))"
proof -
  let ?Q = "\<lambda>n. 1 \<le> n \<and> loop_exit c ((scf_body c ^^ n) s)"
  let ?N = "nat (c_maxit c)"
  have N: "?Q ?N"
    using mx it by (simp add: loop_exit_def iteration_funpow)
  define n where "n = (LEAST n. ?Q n)"
  have q: "?Q n" unfolding n_def by (rule LeastI [of ?Q, OF N])
  have le: "n \<le> ?N" unfolding n_def by (rule Least_le [of ?Q, OF N])
  have nq: "\<forall>m. 1 \<le> m \<and> m < n \<longrightarrow> \<not> loop_exit c ((scf_body c ^^ m) s)"
    using not_less_Least [of _ ?Q] unfolding n_def by blast
  have "scf_loop c s = Some ((scf_body c ^^ n) s)"
    using scf_loop_iff [OF lc, of "(scf_body c ^^ n) s"] q nq by blast
  with q le nq mx show ?thesis by (intro exI [of _ n]) auto
qed

lemma rhf_finish_Inr:
  assumes "s_C t = Some C" and "s_eps t = Some eps" and "0 < c_nbf c"
  shows "\<exists>r. rhf_finish c t = Inr r \<and> energy r = E_scf t \<and> printed_iterations r = iteration t
     \<and> aux_data r = (if c_return_aux_data c then Some (C, eps, c_G c) else None)"
  using assms by (simp add: rhf_finish_def Let_def)

text \<open>
  Claim C9, as amended. Let the function reach its loop with at least one basis
  function. If \<open>maxit \<ge> 1\<close>, it returns a value and raises nothing: the energy of the
  state after some number \<open>n\<close> of passes, \<open>1 \<le> n \<le> maxit\<close>, with \<open>n\<close> as the printed iteration
  count and, in aux-data mode, the \<open>C\<close> and \<open>eps\<close> of that state and \<open>G\<close>; and when after
  every smaller number of passes than \<open>maxit\<close> one of the tests
  \<open>|E_scf - E_old| > convergence\<close>, \<open>dRMS > convergence\<close> is true, this state is the one
  after \<open>maxit\<close> passes and the printed count is \<open>maxit\<close>. If \<open>maxit < 1\<close>, the count never
  equals \<open>maxit\<close> after a pass: the loop ends, if it ends, only with both tests false.
\<close>

theorem non_convergence_returns:
  assumes st: "rhf_setup env a = Inr (c, s0)" and nbf: "0 < c_nbf c"
  shows "(1 \<le> c_maxit c \<longrightarrow>
           (\<exists>r n C eps. restricted_hartree_fock env a = Some (Inr r)
              \<and> 1 \<le> n \<and> int n \<le> c_maxit c
              \<and> s_C ((scf_body c ^^ n) s0) = Some C \<and> s_eps ((scf_body c ^^ n) s0) = Some eps
              \<and> energy r = E_scf ((scf_body c ^^ n) s0) \<and> printed_iterations r = int n
              \<and> aux_data r = (if return_aux_data a then Some (C, eps, c_G c) else None))
           \<and> ((\<forall>m. 1 \<le> m \<and> int m < c_maxit c \<longrightarrow>
                   fgt (fabs (E_scf ((scf_body c ^^ m) s0) - E_old ((scf_body c ^^ m) s0)))
                       (Fin (c_convergence c))
                   \<or> fgt (dRMS ((scf_body c ^^ m) s0)) (Fin (c_convergence c))) \<longrightarrow>
               (\<exists>r C eps. restricted_hartree_fock env a = Some (Inr r)
                  \<and> s_C ((scf_body c ^^ nat (c_maxit c)) s0) = Some C
                  \<and> s_eps ((scf_body c ^^ nat (c_maxit c)) s0) = Some eps
                  \<and> energy r = E_scf ((scf_body c ^^ nat (c_maxit c)) s0)
                  \<and> printed_iterations r = c_maxit c
                  \<and> aux_data r = (if return_aux_data a then Some (C, eps, c_G c) else None))))
       \<and> (c_maxit c < 1 \<longrightarrow>
            (\<forall>t. scf_loop c s0 = Some t \<longrightarrow>
               iteration t \<noteq> c_maxit c
               \<and> \<not> fgt (fabs (E_scf t - E_old t)) (Fin (c_convergence c))
               \<and> \<not> fgt (dRMS t) (Fin (c_convergence c))))"
proof -
  have it0: "iteration s0 = 0" by (rule rhf_setup_Inr(1) [OF st])
  have aux: "c_return_aux_data c = return_aux_data a" by (rule rhf_setup_Inr(12) [OF st])
  have lc0: "loop_condition c s0" by (rule rhf_setup_loop_condition [OF st])
  have pos: "(\<exists>r n C eps. restricted_hartree_fock env a = Some (Inr r)
              \<and> 1 \<le> n \<and> int n \<le> c_maxit c
              \<and> s_C ((scf_body c ^^ n) s0) = Some C \<and> s_eps ((scf_body c ^^ n) s0) = Some eps
              \<and> energy r = E_scf ((scf_body c ^^ n) s0) \<and> printed_iterations r = int n
              \<and> aux_data r = (if return_aux_data a then Some (C, eps, c_G c) else None))
           \<and> ((\<forall>m. 1 \<le> m \<and> int m < c_maxit c \<longrightarrow>
                   fgt (fabs (E_scf ((scf_body c ^^ m) s0) - E_old ((scf_body c ^^ m) s0)))
                       (Fin (c_convergence c))
                   \<or> fgt (dRMS ((scf_body c ^^ m) s0)) (Fin (c_convergence c))) \<longrightarrow>
               (\<exists>r C eps. restricted_hartree_fock env a = Some (Inr r)
                  \<and> s_C ((scf_body c ^^ nat (c_maxit c)) s0) = Some C
                  \<and> s_eps ((scf_body c ^^ nat (c_maxit c)) s0) = Some eps
                  \<and> energy r = E_scf ((scf_body c ^^ nat (c_maxit c)) s0)
                  \<and> printed_iterations r = c_maxit c
                  \<and> aux_data r = (if return_aux_data a then Some (C, eps, c_G c) else None)))"
    if mx: "1 \<le> c_maxit c"
  proof -
    from scf_loop_terminates [OF lc0 it0 mx]
    obtain n where n: "1 \<le> n" "int n \<le> c_maxit c" "scf_loop c s0 = Some ((scf_body c ^^ n) s0)"
      "\<forall>m. 1 \<le> m \<and> m < n \<longrightarrow> \<not> loop_exit c ((scf_body c ^^ m) s0)"
      by blast
    let ?t = "(scf_body c ^^ n) s0"
    from scf_passes_bound [OF n(1)] obtain C eps where ce: "s_C ?t = Some C" "s_eps ?t = Some eps"
      by blast
    from rhf_finish_Inr [OF ce nbf] obtain r where r: "rhf_finish c ?t = Inr r"
      "energy r = E_scf ?t" "printed_iterations r = iteration ?t"
      "aux_data r = (if c_return_aux_data c then Some (C, eps, c_G c) else None)"
      by blast
    have run: "restricted_hartree_fock env a = Some (Inr r)"
      using st n(3) r(1) by (simp add: restricted_hartree_fock_def)
    have itn: "iteration ?t = int n" using it0 by (simp add: iteration_funpow)
    have first: "\<exists>r n C eps. restricted_hartree_fock env a = Some (Inr r)
              \<and> 1 \<le> n \<and> int n \<le> c_maxit c
              \<and> s_C ((scf_body c ^^ n) s0) = Some C \<and> s_eps ((scf_body c ^^ n) s0) = Some eps
              \<and> energy r = E_scf ((scf_body c ^^ n) s0) \<and> printed_iterations r = int n
              \<and> aux_data r = (if return_aux_data a then Some (C, eps, c_G c) else None)"
      using run n(1,2) ce r(2,3,4) itn aux
      by (intro exI [of _ r] exI [of _ n] exI [of _ C] exI [of _ eps]) simp
    have second: "\<exists>r C eps. restricted_hartree_fock env a = Some (Inr r)
                  \<and> s_C ((scf_body c ^^ nat (c_maxit c)) s0) = Some C
                  \<and> s_eps ((scf_body c ^^ nat (c_maxit c)) s0) = Some eps
                  \<and> energy r = E_scf ((scf_body c ^^ nat (c_maxit c)) s0)
                  \<and> printed_iterations r = c_maxit c
                  \<and> aux_data r = (if return_aux_data a then Some (C, eps, c_G c) else None)"
      if nc: "\<forall>m. 1 \<le> m \<and> int m < c_maxit c \<longrightarrow>
                   fgt (fabs (E_scf ((scf_body c ^^ m) s0) - E_old ((scf_body c ^^ m) s0)))
                       (Fin (c_convergence c))
                   \<or> fgt (dRMS ((scf_body c ^^ m) s0)) (Fin (c_convergence c))"
    proof -
      have ex: "loop_exit c ?t"
        using scf_loop_sound [OF n(3)] lc0 by (auto simp: scf_loop_iff)
      have eq: "int n = c_maxit c"
      proof (rule ccontr)
        assume "int n \<noteq> c_maxit c"
        with n(2) have lt: "int n < c_maxit c" by simp
        with ex itn have "\<not> loop_condition c ?t" by (simp add: loop_exit_def)
        moreover from nc n(1) lt have "loop_condition c ?t"
          by (auto simp: loop_condition_def)
        ultimately show False by simp
      qed
      then have "nat (c_maxit c) = n" by simp
      with eq run ce r(2,3,4) itn aux show ?thesis
        by (intro exI [of _ r] exI [of _ C] exI [of _ eps]) simp
    qed
    from first second show ?thesis by blast
  qed
  have neg: "\<forall>t. scf_loop c s0 = Some t \<longrightarrow>
               iteration t \<noteq> c_maxit c
               \<and> \<not> fgt (fabs (E_scf t - E_old t)) (Fin (c_convergence c))
               \<and> \<not> fgt (dRMS t) (Fin (c_convergence c))"
    if mx: "c_maxit c < 1"
  proof (intro allI impI)
    fix t assume run: "scf_loop c s0 = Some t"
    from scf_loop_sound [OF run] lc0 obtain n where n: "1 \<le> n" "t = (scf_body c ^^ n) s0"
      "loop_exit c ((scf_body c ^^ n) s0)"
      by auto
    have "iteration t = int n" using it0 n(2) by (simp add: iteration_funpow)
    with mx n(1) have ne: "iteration t \<noteq> c_maxit c" by simp
    with n(2,3) have "\<not> loop_condition c t" by (simp add: loop_exit_def)
    with ne show "iteration t \<noteq> c_maxit c
               \<and> \<not> fgt (fabs (E_scf t - E_old t)) (Fin (c_convergence c))
               \<and> \<not> fgt (dRMS t) (Fin (c_convergence c))"
      by (simp add: loop_condition_def)
  qed
  from pos neg show ?thesis by blast
qed

lemma h2_finish:
  "rhf_finish (h2_ctx mx dmp False) (h2_state it e eo r d dold f)
     = Inr \<lparr>energy = Fin e, aux_data = None, printed_iterations = it, degeneracy_warning = False\<rparr>"
  by (simp add: rhf_finish_def h2_ctx_def one_function_ctx_def h2_state_def one_function_state_def
      Let_def)

text \<open>
  With \<open>maxit = 0\<close> the count equals \<open>maxit\<close> before the first pass, when no convergence
  criterion holds, and never again: the example runs three passes, until both tests fail,
  and prints 3.
\<close>

theorem non_convergence_counterexample:
  "maxit (opts (h2_args 0 False False)) = 0
   \<and> restricted_hartree_fock h2_env (h2_args 0 False False)
       = Some (Inr \<lparr>energy = Fin (- 3 / 2), aux_data = None, printed_iterations = 3,
                    degeneracy_warning = False\<rparr>)"
proof -
  let ?c = "h2_ctx 0 False False"
  have s3: "Suc 2 = (3::nat)" by simp
  have p3: "(scf_body ?c ^^ Suc 2) h2_start = h2_state 3 (- 3 / 2) (- 3 / 2) 0 1 0 (- 1 / 2)"
    unfolding s3 by (rule h2_passes(3))
  have lc: "loop_condition ?c h2_start"
    by (rule rhf_setup_loop_condition [OF h2_setup])
  have ex: "loop_exit ?c ((scf_body ?c ^^ Suc 2) h2_start)"
    unfolding p3 by (simp add: loop_exit_iff h2_state_def one_function_state_def h2_convergence)
  have ne: "\<forall>m. 1 \<le> m \<and> m < Suc 2 \<longrightarrow> \<not> loop_exit ?c ((scf_body ?c ^^ m) h2_start)"
    unfolding s3 by (simp add: loop_exit_iff h2_early h2_convergence)
  have run: "scf_loop ?c h2_start = Some (h2_state 3 (- 3 / 2) (- 3 / 2) 0 1 0 (- 1 / 2))"
    using scf_loop_complete [OF lc ex ne] unfolding p3 .
  have "restricted_hartree_fock h2_env (h2_args 0 False False)
       = Some (Inr \<lparr>energy = Fin (- 3 / 2), aux_data = None, printed_iterations = 3,
                    degeneracy_warning = False\<rparr>)"
    by (simp add: restricted_hartree_fock_def h2_setup run h2_finish)
  then show ?thesis by (simp add: h2_args_def)
qed

theorem non_convergence_returns_witness:
  "rhf_setup h2_env (h2_args 2 False True) = Inr (h2_ctx 2 False True, h2_start)
   \<and> 0 < c_nbf (h2_ctx 2 False True) \<and> 1 \<le> c_maxit (h2_ctx 2 False True)
   \<and> fgt (dRMS ((scf_body (h2_ctx 2 False True) ^^ 1) h2_start)) (Fin (c_convergence (h2_ctx 2 False True)))
   \<and> (\<exists>r. restricted_hartree_fock h2_env (h2_args 2 False True) = Some (Inr r)
          \<and> energy r = Fin (- 3 / 2) \<and> printed_iterations r = 2
          \<and> aux_data r = Some (mat_1x1 (Fin 1), [Fin (- 1 / 2)], [[[[Fin (1 / 2)]]]]))
   \<and> rhf_setup h2_env (h2_args 0 False False) = Inr (h2_ctx 0 False False, h2_start)
   \<and> c_maxit (h2_ctx 0 False False) < 1
   \<and> scf_loop (h2_ctx 0 False False) h2_start = Some (h2_state 3 (- 3 / 2) (- 3 / 2) 0 1 0 (- 1 / 2))
   \<and> \<not> fgt (dRMS (h2_state 3 (- 3 / 2) (- 3 / 2) 0 1 0 (- 1 / 2))) (Fin (c_convergence (h2_ctx 0 False False)))"
proof -
  let ?c = "h2_ctx 2 False True"
  have nbf: "0 < c_nbf ?c" and mx: "1 \<le> c_maxit ?c" and mx2: "c_maxit ?c = 2"
    and cv: "c_convergence ?c = 1 / 10 ^ 8" and g: "c_G ?c = [[[[Fin (1 / 2)]]]]"
    by (simp_all add: h2_convergence)
  have nc: "\<forall>m. 1 \<le> m \<and> int m < c_maxit ?c \<longrightarrow>
               fgt (fabs (E_scf ((scf_body ?c ^^ m) h2_start) - E_old ((scf_body ?c ^^ m) h2_start)))
                   (Fin (c_convergence ?c))
               \<or> fgt (dRMS ((scf_body ?c ^^ m) h2_start)) (Fin (c_convergence ?c))"
    by (simp add: h2_early cv mx2)
  have d1: "fgt (dRMS ((scf_body ?c ^^ 1) h2_start)) (Fin (c_convergence ?c))"
    using h2_early(1) [of 1 2 True] by (simp add: cv)
  from non_convergence_returns [OF h2_setup nbf, THEN conjunct1, THEN mp, OF mx,
      THEN conjunct2, THEN mp, OF nc]
  obtain r C eps where r: "restricted_hartree_fock h2_env (h2_args 2 False True) = Some (Inr r)"
    "s_C ((scf_body ?c ^^ nat (c_maxit ?c)) h2_start) = Some C"
    "s_eps ((scf_body ?c ^^ nat (c_maxit ?c)) h2_start) = Some eps"
    "energy r = E_scf ((scf_body ?c ^^ nat (c_maxit ?c)) h2_start)"
    "printed_iterations r = c_maxit ?c"
    "aux_data r = (if return_aux_data (h2_args 2 False True) then Some (C, eps, c_G ?c) else None)"
    by blast
  have t: "(scf_body ?c ^^ nat (c_maxit ?c)) h2_start = h2_state 2 (- 3 / 2) 0 1 1 0 (- 1 / 2)"
    by (simp only: mx2 nat_numeral h2_passes)
  from r(2,3,4) have "C = mat_1x1 (Fin 1)" "eps = [Fin (- 1 / 2)]" "energy r = Fin (- 3 / 2)"
    unfolding t by (simp_all add: h2_state_def one_function_state_def)
  with r(1,5,6) have "restricted_hartree_fock h2_env (h2_args 2 False True) = Some (Inr r)
          \<and> energy r = Fin (- 3 / 2) \<and> printed_iterations r = 2
          \<and> aux_data r = Some (mat_1x1 (Fin 1), [Fin (- 1 / 2)], [[[[Fin (1 / 2)]]]])"
    by (simp add: mx2 g h2_args_def)
  then have e: "\<exists>r. restricted_hartree_fock h2_env (h2_args 2 False True) = Some (Inr r)
          \<and> energy r = Fin (- 3 / 2) \<and> printed_iterations r = 2
          \<and> aux_data r = Some (mat_1x1 (Fin 1), [Fin (- 1 / 2)], [[[[Fin (1 / 2)]]]])"
    by (rule exI)
  let ?d = "h2_ctx 0 False False" and ?t = "h2_state 3 (- 3 / 2) (- 3 / 2) 0 1 0 (- 1 / 2)"
  have nbf0: "0 < c_nbf ?d" and mx0: "c_maxit ?d < 1"
    by (simp_all add: h2_convergence)
  have s3: "Suc 2 = (3::nat)" by simp
  have p3: "(scf_body ?d ^^ Suc 2) h2_start = ?t"
    unfolding s3 by (rule h2_passes(3))
  have ex: "loop_exit ?d ((scf_body ?d ^^ Suc 2) h2_start)"
    unfolding p3 by (simp add: loop_exit_iff h2_state_def one_function_state_def h2_convergence)
  have ne: "\<forall>m. 1 \<le> m \<and> m < Suc 2 \<longrightarrow> \<not> loop_exit ?d ((scf_body ?d ^^ m) h2_start)"
    unfolding s3 by (simp add: loop_exit_iff h2_early h2_convergence)
  have run: "scf_loop ?d h2_start = Some ?t"
    using scf_loop_complete [OF rhf_setup_loop_condition [OF h2_setup] ex ne] unfolding p3 .
  from non_convergence_returns [OF h2_setup nbf0, THEN conjunct2, THEN mp, OF mx0,
      THEN spec, THEN mp, OF run]
  have f: "\<not> fgt (dRMS ?t) (Fin (c_convergence ?d))" by blast
  from h2_setup [of 2 False True] h2_setup [of 0 False False] nbf mx d1 e mx0 run f
  show ?thesis by blast
qed

subsection \<open>Density damping\<close>

text \<open>
  Claim C8. With damping enabled, a pass that starts with the iteration counter below
  ten replaces the density by \<open>damp_factor * Dold + damp_factor * D\<close>, stores it as the new
  \<open>Dold\<close>, and builds the Fock matrix (the JK matrix) from it; a pass that starts with the
  counter at ten or more builds the Fock matrix from the density as it is and leaves
  \<open>Dold\<close> alone.
\<close>

theorem damping_first_ten:
  assumes "c_damping c"
  shows "(iteration s < 10 \<longrightarrow>
            (let Dd = mat_add (scale (Fin (c_damp_factor c)) (s_Dold s))
                              (scale (Fin (c_damp_factor c)) (s_D s))
             in s_Dold (scf_body c s) = Dd
                \<and> s_F (scf_body c s) = Some (build_fock c Dd)
                \<and> (E_scf (scf_body c s), s_D (scf_body c s))
                     = (fst (rhf_iter c (build_fock c Dd) Dd), fst (snd (rhf_iter c (build_fock c Dd) Dd)))))
       \<and> (\<not> iteration s < 10 \<longrightarrow>
            s_Dold (scf_body c s) = s_Dold s
            \<and> s_F (scf_body c s) = Some (build_fock c (s_D s))
            \<and> (E_scf (scf_body c s), s_D (scf_body c s))
                 = (fst (rhf_iter c (build_fock c (s_D s)) (s_D s)),
                    fst (snd (rhf_iter c (build_fock c (s_D s)) (s_D s)))))"
  using assms
  by (simp add: scf_body_def damp_density_def Let_def split: prod.splits)

theorem damping_first_ten_witness:
  "c_damping ((h2_ctx 100 True False)\<lparr>c_damp_factor := 1 / 4\<rparr>)
   \<and> iteration (h2_state 1 0 1 1 1 1 (- 1)) < 10
   \<and> s_Dold (scf_body ((h2_ctx 100 True False)\<lparr>c_damp_factor := 1 / 4\<rparr>) (h2_state 1 0 1 1 1 1 (- 1)))
       = mat_1x1 (Fin (1 / 2))
   \<and> s_F (scf_body ((h2_ctx 100 True False)\<lparr>c_damp_factor := 1 / 4\<rparr>) (h2_state 1 0 1 1 1 1 (- 1)))
       = Some (mat_1x1 (Fin (- 3 / 4)))
   \<and> \<not> iteration (h2_state 10 0 1 1 1 1 (- 1)) < 10
   \<and> s_Dold (scf_body ((h2_ctx 100 True False)\<lparr>c_damp_factor := 1 / 4\<rparr>) (h2_state 10 0 1 1 1 1 (- 1)))
       = mat_1x1 (Fin 1)
   \<and> s_F (scf_body ((h2_ctx 100 True False)\<lparr>c_damp_factor := 1 / 4\<rparr>) (h2_state 10 0 1 1 1 1 (- 1)))
       = Some (mat_1x1 (Fin (- 1 / 2)))"
proof -
  let ?c = "(h2_ctx 100 True False)\<lparr>c_damp_factor := 1 / 4\<rparr>"
  have d: "c_damping ?c" by (simp add: h2_ctx_def one_function_ctx_def)
  have i: "iteration (h2_state 1 0 1 1 1 1 (- 1)) < 10" "\<not> iteration (h2_state 10 0 1 1 1 1 (- 1)) < 10"
    by (simp_all add: h2_state_def one_function_state_def)
  have e: "mat_add (scale (Fin (c_damp_factor ?c)) (s_Dold (h2_state 1 0 1 1 1 1 (- 1))))
                   (scale (Fin (c_damp_factor ?c)) (s_D (h2_state 1 0 1 1 1 1 (- 1)))) = mat_1x1 (Fin (1 / 2))"
    "s_Dold (h2_state 10 0 1 1 1 1 (- 1)) = mat_1x1 (Fin 1)"
    "s_D (h2_state 10 0 1 1 1 1 (- 1)) = mat_1x1 (Fin 1)"
    by (simp_all add: h2_state_def one_function_state_def h2_ctx_def one_function_ctx_def matrix_defs)
  have f: "build_fock ?c (mat_1x1 (Fin (1 / 2))) = mat_1x1 (Fin (- 3 / 4))"
    "build_fock ?c (mat_1x1 (Fin 1)) = mat_1x1 (Fin (- 1 / 2))"
    by (simp_all add: build_fock_def jk_build_def tensordot_01_def transpose_0213_def
        swap_axes_def h2_ctx_def one_function_ctx_def matrix_defs)
  from damping_first_ten [OF d, of "h2_state 1 0 1 1 1 1 (- 1)", THEN conjunct1, THEN mp, OF i(1)]
  have 1: "s_Dold (scf_body ?c (h2_state 1 0 1 1 1 1 (- 1))) = mat_1x1 (Fin (1 / 2))
       \<and> s_F (scf_body ?c (h2_state 1 0 1 1 1 1 (- 1))) = Some (mat_1x1 (Fin (- 3 / 4)))"
    by (simp only: Let_def e f simp_thms)
  from damping_first_ten [OF d, of "h2_state 10 0 1 1 1 1 (- 1)", THEN conjunct2, THEN mp, OF i(2)]
  have 2: "s_Dold (scf_body ?c (h2_state 10 0 1 1 1 1 (- 1))) = mat_1x1 (Fin 1)
       \<and> s_F (scf_body ?c (h2_state 10 0 1 1 1 1 (- 1))) = Some (mat_1x1 (Fin (- 1 / 2)))"
    by (simp only: Let_def e f simp_thms)
  from d i 1 2 show ?thesis by blast
qed

subsection \<open>The convergence residual\<close>

lemma einsum_ij_jk_kl_dot: "einsum_ij_jk_kl X Y Z = dot X (dot Y Z)"
proof -
  have c: "col (dot Y Z) l = map (\<lambda>y. inner y (col Z l)) (rows Y)" if "l < ncols Z" for l
    using that by (simp add: col_def dot_def)
  have i: "inner r (map f ys) = sum_list (map2 (\<lambda>x y. x * f y) r ys)" for r f and ys :: "fl list list"
    by (simp add: inner_def zip_map2 comp_def case_prod_unfold)
  have n: "ncols (dot Y Z) = ncols Z" by (simp add: dot_def)
  show ?thesis
    unfolding einsum_ij_jk_kl_def dot_def [of X "dot Y Z"] n
    by (simp add: c i cong: map_cong)
qed



lemma diis_error_dot:
  "diis_error A S F D = dot (dot A (mat_sub (dot F (dot D S)) (dot S (dot D F)))) A"
  by (simp add: diis_error_def einsum_ij_jk_kl_dot)



subsection \<open>Matrix algebra\<close>

lemma sum_list_map2_nth:
  "length xs = length ys \<Longrightarrow> sum_list (map2 f xs ys) = (\<Sum>k<length xs. f (xs ! k) (ys ! k))"
  by (simp add: sum_list_sum_nth atLeast0LessThan)

lemma inner_sum: "length x = length y \<Longrightarrow> inner x y = (\<Sum>k<length x. x ! k * y ! k)"
  by (simp add: inner_def sum_list_map2_nth)

lemma is_matD:
  assumes "is_mat n m M"
  shows "nrows M = n" "ncols M = m" "length (rows M) = n" "\<And>i. i < n \<Longrightarrow> length (rows M ! i) = m"
  using assms by (auto simp: is_mat_def wf_matrix_def)

lemma is_mat_mat_add: "is_mat n m X \<Longrightarrow> is_mat n m Y \<Longrightarrow> is_mat n m (mat_add X Y)"
  by (auto simp: is_mat_def wf_matrix_def mat_add_def set_zip)

lemma entry_mat_add:
  "is_mat n m X \<Longrightarrow> is_mat n m Y \<Longrightarrow> i < n \<Longrightarrow> j < m \<Longrightarrow>
   entry (mat_add X Y) i j = entry X i j + entry Y i j"
  by (simp add: entry_def mat_add_def is_matD)

lemma einsum_pq_pq_sum:
  assumes X: "is_mat n m X" and Y: "is_mat n m Y"
  shows "einsum_pq_pq X Y = (\<Sum>i<n. \<Sum>j<m. entry X i j * entry Y i j)"
proof -
  have "einsum_pq_pq X Y = (\<Sum>i<n. inner (rows X ! i) (rows Y ! i))"
    by (simp add: einsum_pq_pq_def sum_list_map2_nth is_matD [OF X] is_matD [OF Y])
  also have "\<dots> = (\<Sum>i<n. \<Sum>j<m. entry X i j * entry Y i j)"
    by (rule sum.cong) (simp_all add: inner_sum entry_def is_matD [OF X] is_matD [OF Y])
  finally show ?thesis .
qed


lemma matrix_eqI:
  assumes X: "is_mat n m X" and Y: "is_mat n m Y"
    and e: "\<And>i j. i < n \<Longrightarrow> j < m \<Longrightarrow> entry X i j = entry Y i j"
  shows "X = Y"
proof -
  have "rows X = rows Y"
  proof (rule nth_equalityI)
    show "length (rows X) = length (rows Y)" by (simp add: is_matD [OF X] is_matD [OF Y])
  next
    fix i assume "i < length (rows X)"
    then have i: "i < n" by (simp add: is_matD [OF X])
    show "rows X ! i = rows Y ! i"
    proof (rule nth_equalityI)
      show "length (rows X ! i) = length (rows Y ! i)"
        using i by (simp add: is_matD [OF X] is_matD [OF Y])
    next
      fix j assume "j < length (rows X ! i)"
      then have "j < m" using i by (simp add: is_matD [OF X])
      from e [OF i this] show "rows X ! i ! j = rows Y ! i ! j" by (simp add: entry_def)
    qed
  qed
  then show ?thesis by (simp add: is_matD [OF X] is_matD [OF Y])
qed

lemma is_mat_dot: "is_mat n m X \<Longrightarrow> ncols Y = p \<Longrightarrow> is_mat n p (dot X Y)"
  by (auto simp: is_mat_def wf_matrix_def dot_def)

lemma entry_dot:
  assumes X: "is_mat n m X" and Y: "is_mat m p Y" and i: "i < n" and j: "j < p"
  shows "entry (dot X Y) i j = (\<Sum>k<m. entry X i k * entry Y k j)"
proof -
  have "entry (dot X Y) i j = inner (rows X ! i) (col Y j)"
    using i j by (simp add: entry_def dot_def is_matD [OF X] is_matD [OF Y])
  also have "\<dots> = (\<Sum>k<m. rows X ! i ! k * col Y j ! k)"
    using i by (simp add: inner_sum col_def is_matD [OF X] is_matD [OF Y])
  also have "\<dots> = (\<Sum>k<m. entry X i k * entry Y k j)"
    by (rule sum.cong) (simp_all add: col_def entry_def is_matD [OF Y])
  finally show ?thesis .
qed

lemma is_mat_transpose: "is_mat n m X \<Longrightarrow> is_mat m n (transpose_m X)"
  by (auto simp: is_mat_def wf_matrix_def transpose_m_def col_def)

lemma entry_transpose:
  "is_mat n m X \<Longrightarrow> i < n \<Longrightarrow> j < m \<Longrightarrow> entry (transpose_m X) j i = entry X i j"
  by (simp add: entry_def transpose_m_def col_def is_matD)

lemma transpose_transpose: "is_mat n m X \<Longrightarrow> transpose_m (transpose_m X) = X"
  by (rule matrix_eqI [of n m])
     (simp_all add: is_mat_transpose entry_transpose [of m n] entry_transpose [of n m])

lemma dot_assoc:
  assumes X: "is_mat n m X" and Y: "is_mat m p Y" and Z: "is_mat p q Z"
    and m: "0 < m" and p: "0 < p"
  shows "dot (dot X Y) Z = dot X (dot Y Z)"
proof (rule matrix_eqI [of n q])
  have XY: "is_mat n p (dot X Y)" by (rule is_mat_dot [OF X]) (simp add: is_matD [OF Y])
  have YZ: "is_mat m q (dot Y Z)" by (rule is_mat_dot [OF Y]) (simp add: is_matD [OF Z])
  show "is_mat n q (dot (dot X Y) Z)" by (rule is_mat_dot [OF XY]) (simp add: is_matD [OF Z])
  show "is_mat n q (dot X (dot Y Z))" by (rule is_mat_dot [OF X]) (simp add: is_matD [OF YZ])
  fix i j assume i: "i < n" and j: "j < q"
  have "entry (dot (dot X Y) Z) i j = (\<Sum>l<p. (\<Sum>k<m. entry X i k * entry Y k l) * entry Z l j)"
    by (simp add: entry_dot [OF XY Z i j] entry_dot [OF X Y i])
  also have "\<dots> = (\<Sum>l<p. \<Sum>k<m. entry X i k * (entry Y k l * entry Z l j))"
    by (simp add: sum_distrib_right_fl [OF m] mult.assoc)
  also have "\<dots> = (\<Sum>k<m. \<Sum>l<p. entry X i k * (entry Y k l * entry Z l j))"
    by (rule sum.swap)
  also have "\<dots> = (\<Sum>k<m. entry X i k * entry (dot Y Z) k j)"
    by (simp add: entry_dot [OF Y Z _ j] sum_distrib_left_fl [OF p])
  also have "\<dots> = entry (dot X (dot Y Z)) i j"
    by (simp add: entry_dot [OF X YZ i j])
  finally show "entry (dot (dot X Y) Z) i j = entry (dot X (dot Y Z)) i j" .
qed

lemma transpose_dot:
  assumes X: "is_mat n m X" and Y: "is_mat m p Y"
  shows "transpose_m (dot X Y) = dot (transpose_m Y) (transpose_m X)"
proof (rule matrix_eqI [of p n])
  have XY: "is_mat n p (dot X Y)" by (rule is_mat_dot [OF X]) (simp add: is_matD [OF Y])
  have Xt: "is_mat m n (transpose_m X)" and Yt: "is_mat p m (transpose_m Y)"
    by (rule is_mat_transpose [OF X], rule is_mat_transpose [OF Y])
  show "is_mat p n (transpose_m (dot X Y))" by (rule is_mat_transpose [OF XY])
  show "is_mat p n (dot (transpose_m Y) (transpose_m X))"
    by (rule is_mat_dot [OF Yt]) (simp add: is_matD [OF Xt])
  fix j i assume j: "j < p" and i: "i < n"
  have "entry (transpose_m (dot X Y)) j i = (\<Sum>k<m. entry X i k * entry Y k j)"
    by (simp add: entry_transpose [OF XY i j] entry_dot [OF X Y i j])
  also have "\<dots> = (\<Sum>k<m. entry (transpose_m Y) j k * entry (transpose_m X) k i)"
    by (rule sum.cong) (simp_all add: entry_transpose [OF X i] entry_transpose [OF Y _ j] mult.commute)
  also have "\<dots> = entry (dot (transpose_m Y) (transpose_m X)) j i"
    by (simp add: entry_dot [OF Yt Xt j i])
  finally show "entry (transpose_m (dot X Y)) j i = entry (dot (transpose_m Y) (transpose_m X)) j i" .
qed

lemma is_mat_identity: "is_mat n n (identity n)"
  by (auto simp: is_mat_def wf_matrix_def identity_def diag_def)

lemma entry_identity: "i < n \<Longrightarrow> j < n \<Longrightarrow> entry (identity n) i j = (if i = j then 1 else 0)"
  by (simp add: entry_def identity_def diag_def)

lemma transpose_identity: "transpose_m (identity n) = identity n"
  by (rule matrix_eqI [of n n])
     (auto simp: is_mat_transpose is_mat_identity entry_transpose [OF is_mat_identity] entry_identity)

lemma entry_identity_Fin:
  "i < n \<Longrightarrow> j < n \<Longrightarrow> entry (identity n) i j = Fin (if i = j then 1 else 0)"
  by (simp add: entry_identity fl_numerals)

lemma dot_identity_identity: "dot (identity n) (identity n) = identity n"
proof (rule matrix_eqI [of n n])
  show "is_mat n n (dot (identity n) (identity n))"
    by (rule is_mat_dot [OF is_mat_identity]) (simp add: is_matD [OF is_mat_identity])
  show "is_mat n n (identity n)" by (rule is_mat_identity)
  fix i j assume i: "i < n" and j: "j < n"
  have "entry (dot (identity n) (identity n)) i j
      = (\<Sum>k<n. Fin ((if i = k then 1 else 0) * (if k = j then 1 else 0)))"
    unfolding entry_dot [OF is_mat_identity is_mat_identity i j]
    by (rule sum.cong) (simp_all add: entry_identity_Fin i j)
  also have "\<dots> = Fin (\<Sum>k<n. (if i = k then 1 else 0) * (if k = j then 1 else 0))"
    by (rule sum_Fin)
  also have "(\<Sum>k<n. (if i = k then 1 else 0) * (if k = j then 1 else 0))
      = (\<Sum>k<n. if k = i then (if i = j then 1 else 0) else (0::real))"
    by (rule sum.cong) auto
  also have "\<dots> = (if i = j then 1 else 0)"
    using i by (simp add: sum.delta)
  finally show "entry (dot (identity n) (identity n)) i j = entry (identity n) i j"
    by (simp add: entry_identity_Fin i j)
qed

subsection \<open>One Roothaan step\<close>

lemma is_mat_columns_to:
  assumes M: "is_mat n m M" and k: "0 \<le> k"
  shows "is_mat n (min (nat k) m) (columns_to k M)"
  using M k by (auto simp: is_mat_def wf_matrix_def columns_to_def py_slice_to_def min.commute)

lemma entry_columns_to:
  assumes M: "is_mat n m M" and k: "0 \<le> k" and i: "i < n" and j: "j < min (nat k) m"
  shows "entry (columns_to k M) i j = entry M i j"
  using k i j by (simp add: entry_def columns_to_def py_slice_to_def is_matD [OF M])

lemma entry_gram:
  assumes M: "is_mat n k M" and i: "i < n" and j: "j < n"
  shows "entry (dot M (transpose_m M)) i j = (\<Sum>l<k. entry M i l * entry M j l)"
  unfolding entry_dot [OF M is_mat_transpose [OF M] i j]
  by (rule sum.cong) (simp_all add: entry_transpose [OF M j])

text \<open>
  Claim C4. A call \<open>rhf_iter(F, D)\<close> returns as energy the sum over all entries of
  \<open>(F + H)[p][q] * D[p][q]\<close>, whatever the nuclear repulsion energy is, and as density
  \<open>Cocc Cocc\<^sup>T\<close>, whose entry \<open>(i, j)\<close> is the sum over the first \<open>ndocc\<close> columns \<open>l\<close> of
  \<open>C[i][l] * C[j][l]\<close>. Here \<open>Cocc\<close> consists of the first \<open>ndocc\<close> columns of \<open>C = A C'\<close> and
  \<open>(eps, C')\<close> is the eigendecomposition of \<open>A\<^sup>T F A + shift\<close>, the matrix with the
  entries \<open>sum over k, l of A[k][i] * F[k][l] * A[l][j]\<close> plus \<open>shift[i][j]\<close>; with the
  orbital energies \<open>eps\<close> in ascending order, as \<open>eigh\<close> returns them, these columns belong
  to the lowest orbital energies. Here \<open>ndocc\<close> is not negative and the matrices are
  \<open>n \<times> n\<close>.
\<close>

theorem rhf_iter_energy_density:
  assumes "0 \<le> c_ndocc c"
  shows "(let Fp = mat_add (dot (transpose_m (c_A c)) (dot F (c_A c))) (c_shift c);
              eps = fst (c_eigh c Fp);
              C2 = snd (c_eigh c Fp);
              C = dot (c_A c) C2;
              Cocc = columns_to (c_ndocc c) C;
              Dn = dot Cocc (transpose_m Cocc);
              k = min (nat (c_ndocc c)) n
          in rhf_iter c F D = (einsum_pq_pq (mat_add F (c_H c)) D, Dn, C, eps)
             \<and> rhf_iter (c\<lparr>c_Enuc := x\<rparr>) F D = rhf_iter c F D
             \<and> ((\<forall>i j. i \<le> j \<and> j < length eps \<longrightarrow> fle (eps ! i) (eps ! j)) \<longrightarrow>
                  (\<forall>i j. i < k \<and> k \<le> j \<and> j < length eps \<longrightarrow> fle (eps ! i) (eps ! j)))
             \<and> (is_mat n n F \<and> is_mat n n (c_H c) \<and> is_mat n n D \<and> is_mat n n (c_A c)
                   \<and> is_mat n n (c_shift c) \<and> is_mat n n C2 \<longrightarrow>
                  einsum_pq_pq (mat_add F (c_H c)) D
                    = (\<Sum>p<n. \<Sum>q<n. (entry F p q + entry (c_H c) p q) * entry D p q)
                  \<and> (\<forall>i<n. \<forall>j<n. entry Fp i j
                        = (\<Sum>k<n. entry (c_A c) k i * (\<Sum>l<n. entry F k l * entry (c_A c) l j))
                          + entry (c_shift c) i j)
                  \<and> (\<forall>i<n. \<forall>j<n. entry C i j = (\<Sum>k<n. entry (c_A c) i k * entry C2 k j))
                  \<and> is_mat n k Cocc
                  \<and> (\<forall>i<n. \<forall>j<k. entry Cocc i j = entry C i j)
                  \<and> is_mat n n Dn
                  \<and> (\<forall>i<n. \<forall>j<n. entry Dn i j = (\<Sum>l<k. entry C i l * entry C j l))))"
proof -
  define Fp where "Fp = mat_add (dot (transpose_m (c_A c)) (dot F (c_A c))) (c_shift c)"
  define eps where "eps = fst (c_eigh c Fp)"
  define C2 where "C2 = snd (c_eigh c Fp)"
  define C where "C = dot (c_A c) C2"
  define Cocc where "Cocc = columns_to (c_ndocc c) C"
  define Dn where "Dn = dot Cocc (transpose_m Cocc)"
  define k where "k = min (nat (c_ndocc c)) n"
  have run: "rhf_iter c F D = (einsum_pq_pq (mat_add F (c_H c)) D, Dn, C, eps)"
    by (simp add: rhf_iter_def Let_def Fp_def eps_def C2_def C_def Cocc_def Dn_def
        split: prod.splits)
  have enuc: "rhf_iter (c\<lparr>c_Enuc := x\<rparr>) F D = rhf_iter c F D"
    by (simp add: rhf_iter_def)
  have srt: "\<forall>i j. i < k \<and> k \<le> j \<and> j < length eps \<longrightarrow> fle (eps ! i) (eps ! j)"
    if "\<forall>i j. i \<le> j \<and> j < length eps \<longrightarrow> fle (eps ! i) (eps ! j)"
    using that by auto
  have shaped: "einsum_pq_pq (mat_add F (c_H c)) D
                    = (\<Sum>p<n. \<Sum>q<n. (entry F p q + entry (c_H c) p q) * entry D p q)
                  \<and> (\<forall>i<n. \<forall>j<n. entry Fp i j
                        = (\<Sum>k<n. entry (c_A c) k i * (\<Sum>l<n. entry F k l * entry (c_A c) l j))
                          + entry (c_shift c) i j)
                  \<and> (\<forall>i<n. \<forall>j<n. entry C i j = (\<Sum>k<n. entry (c_A c) i k * entry C2 k j))
                  \<and> is_mat n k Cocc
                  \<and> (\<forall>i<n. \<forall>j<k. entry Cocc i j = entry C i j)
                  \<and> is_mat n n Dn
                  \<and> (\<forall>i<n. \<forall>j<n. entry Dn i j = (\<Sum>l<k. entry C i l * entry C j l))"
    if F: "is_mat n n F" and H: "is_mat n n (c_H c)" and D: "is_mat n n D"
      and A: "is_mat n n (c_A c)" and sh: "is_mat n n (c_shift c)" and C2: "is_mat n n C2"
  proof -
    have e: "einsum_pq_pq (mat_add F (c_H c)) D
                    = (\<Sum>p<n. \<Sum>q<n. (entry F p q + entry (c_H c) p q) * entry D p q)"
      by (simp add: einsum_pq_pq_sum [OF is_mat_mat_add [OF F H] D] entry_mat_add [OF F H])
    have FA: "is_mat n n (dot F (c_A c))"
      by (rule is_mat_dot [OF F]) (simp add: is_matD [OF A])
    have At: "is_mat n n (transpose_m (c_A c))" by (rule is_mat_transpose [OF A])
    have AFA: "is_mat n n (dot (transpose_m (c_A c)) (dot F (c_A c)))"
      by (rule is_mat_dot [OF At]) (simp add: is_matD [OF FA])
    have fp: "entry Fp i j
                = (\<Sum>k<n. entry (c_A c) k i * (\<Sum>l<n. entry F k l * entry (c_A c) l j))
                  + entry (c_shift c) i j" if "i < n" "j < n" for i j
      using that
      by (simp add: Fp_def entry_mat_add [OF AFA sh] entry_dot [OF At FA] entry_dot [OF F A]
          entry_transpose [OF A])
    have Cm: "is_mat n n C"
      unfolding C_def by (rule is_mat_dot [OF A]) (simp add: is_matD [OF C2])
    have c: "entry C i j = (\<Sum>k<n. entry (c_A c) i k * entry C2 k j)" if "i < n" "j < n" for i j
      using that by (simp add: C_def entry_dot [OF A C2])
    have Co: "is_mat n k Cocc"
      unfolding Cocc_def k_def by (rule is_mat_columns_to [OF Cm assms])
    have co: "entry Cocc i j = entry C i j" if "i < n" "j < k" for i j
      using that unfolding Cocc_def k_def by (simp add: entry_columns_to [OF Cm assms])
    have Dm: "is_mat n n Dn"
      unfolding Dn_def
      by (rule is_mat_dot [OF Co]) (simp add: is_matD [OF is_mat_transpose [OF Co]])
    have d: "entry Dn i j = (\<Sum>l<k. entry C i l * entry C j l)" if "i < n" "j < n" for i j
      unfolding Dn_def entry_gram [OF Co that]
      by (rule sum.cong) (simp_all add: co that)
    from e fp c Co co Dm d show ?thesis by blast
  qed
  from run enuc srt shaped show ?thesis
    unfolding Let_def Fp_def [symmetric] eps_def [symmetric] C2_def [symmetric] C_def [symmetric]
      Cocc_def [symmetric] Dn_def [symmetric] k_def [symmetric]
    by blast
qed

lemma ex_is_mat:
  "is_mat 2 2 ex_F2" "is_mat 2 2 ex_H" "is_mat 2 2 ex_P" "is_mat 2 2 ex_A"
  "is_mat 2 2 (zeros 2 2)" "is_mat 2 2 (identity 2)" "is_mat 2 2 ex_S" "is_mat 2 2 ex_L"
  "is_mat 2 2 ex_Linv"
  by (simp_all add: is_mat_def wf_matrix_def ex_F2_def ex_H_def ex_P_def ex_A_def ex_S_def
      ex_L_def ex_Linv_def numeral_2_eq_2 matrix_defs)

lemma ex_fock_orthogonal:
  "mat_add (dot (transpose_m ex_A) (dot ex_F2 ex_A)) (zeros 2 2) = fin_matrix 2 2 [[1, 0], [0, 2]]"
  by (simp add: ex_A_def ex_F2_def numeral_2_eq_2 matrix_defs)

lemma ex_eigh:
  "eigh_diagonal (fin_matrix 2 2 [[1, 0], [0, 2]]) = ([Fin 1, Fin 2], identity 2)"
  by (simp add: eigh_diagonal_def fin_matrix_def entry_def)

lemma ex_coefficients: "dot ex_A (identity 2) = ex_A"
  by (simp add: ex_A_def numeral_2_eq_2 matrix_defs)

lemma ex_occupied: "columns_to 1 ex_A = fin_matrix 2 1 [[1], [0]]"
  by (simp add: ex_A_def numeral_2_eq_2 matrix_defs)

lemma ex_density:
  "dot (fin_matrix 2 1 [[1], [0]]) (transpose_m (fin_matrix 2 1 [[1], [0]]))
     = fin_matrix 2 2 [[1, 0], [0, 0]]"
  by (simp add: numeral_2_eq_2 matrix_defs)

lemma ex_energy: "einsum_pq_pq (mat_add ex_F2 ex_H) ex_P = Fin 31"
  by (simp add: ex_F2_def ex_H_def ex_P_def numeral_2_eq_2 matrix_defs)

lemma ex_ctx_fields:
  "c_ndocc (ex_ctx H) = 1" "c_A (ex_ctx H) = ex_A" "c_H (ex_ctx H) = H"
  "c_shift (ex_ctx H) = zeros 2 2" "c_eigh (ex_ctx H) = eigh_diagonal"
  by (simp_all add: ex_ctx_def)

theorem rhf_iter_energy_density_witness:
  "0 \<le> c_ndocc (ex_ctx ex_H)
   \<and> is_mat 2 2 ex_F2 \<and> is_mat 2 2 (c_H (ex_ctx ex_H)) \<and> is_mat 2 2 ex_P
   \<and> is_mat 2 2 (c_A (ex_ctx ex_H)) \<and> is_mat 2 2 (c_shift (ex_ctx ex_H))
   \<and> c_A (ex_ctx ex_H) = ex_A \<and> transpose_m ex_A \<noteq> ex_A
   \<and> rhf_iter (ex_ctx ex_H) ex_F2 ex_P
       = (Fin 31, fin_matrix 2 2 [[1, 0], [0, 0]], ex_A, [Fin 1, Fin 2])
   \<and> rhf_iter (ex_ctx ex_H\<lparr>c_Enuc := 5\<rparr>) ex_F2 ex_P = rhf_iter (ex_ctx ex_H) ex_F2 ex_P
   \<and> fle (Fin 1) (Fin 2)
   \<and> Fin 31 = (\<Sum>p<2. \<Sum>q<2. (entry ex_F2 p q + entry ex_H p q) * entry ex_P p q)
   \<and> entry (fin_matrix 2 2 [[1, 0], [0, 2]]) 0 1
        = (\<Sum>k<2. entry ex_A k 0 * (\<Sum>l<2. entry ex_F2 k l * entry ex_A l 1))
          + entry (zeros 2 2) 0 1
   \<and> entry (fin_matrix 2 2 [[1, 0], [0, 2]]) 1 1
        = (\<Sum>k<2. entry ex_A k 1 * (\<Sum>l<2. entry ex_F2 k l * entry ex_A l 1))
          + entry (zeros 2 2) 1 1
   \<and> is_mat 2 1 (columns_to 1 ex_A)
   \<and> entry (columns_to 1 ex_A) 1 0 = entry ex_A 1 0
   \<and> entry (fin_matrix 2 2 [[1, 0], [0, 0]]) 0 0 = (\<Sum>l<1. entry ex_A 0 l * entry ex_A 0 l)
   \<and> entry (fin_matrix 2 2 [[1, 0], [0, 0]]) 0 1 = (\<Sum>l<1. entry ex_A 0 l * entry ex_A 1 l)
   \<and> entry (fin_matrix 2 2 [[1, 0], [0, 0]]) 1 1 = (\<Sum>l<1. entry ex_A 1 l * entry ex_A 1 l)"
proof -
  have nd: "0 \<le> c_ndocc (ex_ctx ex_H)" by (simp add: ex_ctx_fields)
  have ns: "transpose_m ex_A \<noteq> ex_A" by (simp add: ex_A_def numeral_2_eq_2 matrix_defs)
  have k: "min (nat 1) 2 = (1::nat)" by simp
  note t = rhf_iter_energy_density [where c = "ex_ctx ex_H" and F = ex_F2 and D = ex_P
      and n = 2 and x = 5, OF nd, unfolded Let_def ex_ctx_fields ex_fock_orthogonal ex_eigh
      fst_conv snd_conv ex_coefficients k]
  have shapes: "is_mat 2 2 ex_F2 \<and> is_mat 2 2 ex_H \<and> is_mat 2 2 ex_P \<and> is_mat 2 2 ex_A
      \<and> is_mat 2 2 (zeros 2 2) \<and> is_mat 2 2 (identity 2)"
    by (simp add: ex_is_mat)
  note e = t [THEN conjunct2, THEN conjunct2, THEN conjunct2, THEN mp, OF shapes]
  have le: "fle (Fin 1) (Fin 2)" by simp
  have lt: "(0::nat) < 2" "(1::nat) < 2" "(0::nat) < 1" by simp_all
  note run = t [THEN conjunct1, unfolded ex_occupied ex_density ex_energy]
  note en = e [THEN conjunct1, unfolded ex_energy]
  note fp = e [THEN conjunct2, THEN conjunct1, rule_format]
  note cm = e [THEN conjunct2, THEN conjunct2, THEN conjunct2, THEN conjunct1]
  note co = e [THEN conjunct2, THEN conjunct2, THEN conjunct2, THEN conjunct2, THEN conjunct1,
      rule_format]
  note dn = e [THEN conjunct2, THEN conjunct2, THEN conjunct2, THEN conjunct2, THEN conjunct2,
      THEN conjunct2, unfolded ex_occupied ex_density, rule_format]
  from nd ns le shapes run t [THEN conjunct2, THEN conjunct1] en
    fp [OF lt(1) lt(2)] fp [OF lt(2) lt(2)] cm co [OF lt(2) lt(3)]
    dn [OF lt(1) lt(1)] dn [OF lt(1) lt(2)] dn [OF lt(2) lt(2)]
  show ?thesis
    unfolding ex_ctx_fields by blast
qed

subsection \<open>The orthogonalizer\<close>

lemma rhf_setup_A:
  assumes "rhf_setup env a = Inr (c, s0)"
  shows "c_A c = cholesky_orthogonalization env (c_S c)"
  using assms by (auto simp: rhf_setup_def Let_def split: prod.splits sum.splits if_splits)

lemma is_mat_empty_eq: "is_mat 0 0 X \<Longrightarrow> is_mat 0 0 Y \<Longrightarrow> X = Y"
  by (rule matrix_eqI [of 0 0]) simp_all

text \<open>
  Claim C7. Let \<open>L\<close> be what \<open>jnp.linalg.cholesky\<close> returns for \<open>S\<close>, an \<open>n \<times> n\<close> matrix with
  \<open>L L\<^sup>T = S\<close> as it is for a symmetric positive-definite \<open>S\<close>, and let \<open>jnp.linalg.inv\<close>
  return an inverse of \<open>L\<close>. Then \<open>cholesky_orthogonalization(S)\<close>, the transpose of the
  inverse of \<open>L\<close>, is the inverse of \<open>L\<^sup>T\<close> and satisfies \<open>A\<^sup>T S A = I\<close>; and it is the
  orthogonalizer \<open>A\<close> that the function fixes before its loop for the overlap matrix \<open>S\<close>
  of the run.
\<close>

theorem cholesky_orthogonalization_inverse:
  assumes L: "is_mat n n (linalg_cholesky env S)"
    and LLt: "dot (linalg_cholesky env S) (transpose_m (linalg_cholesky env S)) = S"
    and Li: "is_mat n n (linalg_inv env (linalg_cholesky env S))"
    and inv1: "dot (linalg_inv env (linalg_cholesky env S)) (linalg_cholesky env S) = identity n"
    and inv2: "dot (linalg_cholesky env S) (linalg_inv env (linalg_cholesky env S)) = identity n"
  shows "(let L = linalg_cholesky env S; A = cholesky_orthogonalization env S
          in A = transpose_m (linalg_inv env L)
             \<and> dot A (transpose_m L) = identity n
             \<and> dot (transpose_m L) A = identity n
             \<and> dot (transpose_m A) (dot S A) = identity n
             \<and> (\<forall>a c s0. rhf_setup env a = Inr (c, s0) \<and> c_S c = S \<longrightarrow> c_A c = A))"
proof -
  let ?L = "linalg_cholesky env S" and ?Li = "linalg_inv env (linalg_cholesky env S)"
  let ?A = "transpose_m ?Li"
  have Lt: "is_mat n n (transpose_m ?L)" and A: "is_mat n n ?A"
    by (rule is_mat_transpose [OF L], rule is_mat_transpose [OF Li])
  have 1: "dot ?A (transpose_m ?L) = identity n"
    using transpose_dot [OF L Li] by (simp add: inv2 transpose_identity)
  have 2: "dot (transpose_m ?L) ?A = identity n"
    using transpose_dot [OF Li L] by (simp add: inv1 transpose_identity)
  have At: "transpose_m ?A = ?Li" by (rule transpose_transpose [OF Li])
  have 3: "dot (transpose_m ?A) (dot S ?A) = identity n"
  proof (cases "n = 0")
    case True
    have "is_mat n n (dot (dot ?L (transpose_m ?L)) ?A)"
      by (rule is_mat_dot [OF is_mat_dot [OF L]]) (simp_all add: is_matD [OF Lt] is_matD [OF A])
    then have SA: "is_mat n n (dot S ?A)"
      by (simp only: LLt)
    have "is_mat n n (dot (transpose_m ?A) (dot S ?A))"
      unfolding At by (rule is_mat_dot [OF Li]) (simp add: is_matD [OF SA])
    with is_mat_identity [of n] show ?thesis
      unfolding True by (rule is_mat_empty_eq [rotated])
  next
    case False
    then have pos: "0 < n" by simp
    have "dot ?Li (dot S ?A) = dot ?Li (dot (dot ?L (transpose_m ?L)) ?A)"
      by (simp only: LLt)
    also have "\<dots> = dot ?Li (dot ?L (dot (transpose_m ?L) ?A))"
      by (simp only: dot_assoc [OF L Lt A pos pos])
    also have "\<dots> = dot (dot ?Li ?L) (dot (transpose_m ?L) ?A)"
      by (rule dot_assoc [OF Li L is_mat_dot [OF Lt] pos pos, symmetric])
        (simp add: is_matD [OF A])
    also have "\<dots> = identity n"
      by (simp only: inv1 2 dot_identity_identity)
    finally show ?thesis
      by (simp only: At)
  qed
  have 4: "\<forall>a c s0. rhf_setup env a = Inr (c, s0) \<and> c_S c = S \<longrightarrow> c_A c = ?A"
    using rhf_setup_A by (auto simp: cholesky_orthogonalization_def)
  from 1 2 3 4 show ?thesis
    by (simp add: Let_def cholesky_orthogonalization_def)
qed

theorem cholesky_orthogonalization_inverse_witness:
  "is_mat 2 2 (linalg_cholesky ex_linalg ex_S)
   \<and> dot (linalg_cholesky ex_linalg ex_S) (transpose_m (linalg_cholesky ex_linalg ex_S)) = ex_S
   \<and> is_mat 2 2 (linalg_inv ex_linalg (linalg_cholesky ex_linalg ex_S))
   \<and> dot (linalg_inv ex_linalg (linalg_cholesky ex_linalg ex_S)) (linalg_cholesky ex_linalg ex_S) = identity 2
   \<and> dot (linalg_cholesky ex_linalg ex_S) (linalg_inv ex_linalg (linalg_cholesky ex_linalg ex_S)) = identity 2
   \<and> cholesky_orthogonalization ex_linalg ex_S = ex_A
   \<and> dot (transpose_m ex_A) (dot ex_S ex_A) = identity 2
   \<and> (\<exists>c s0. rhf_setup ex_linalg (h2_args 1 False False) = Inr (c, s0) \<and> c_S c = ex_S \<and> c_A c = ex_A)"
proof -
  have c: "\<And>M. linalg_cholesky ex_linalg M = ex_L" "\<And>M. linalg_inv ex_linalg M = ex_Linv"
    by (simp_all add: ex_linalg_def)
  have L: "is_mat 2 2 (linalg_cholesky ex_linalg ex_S)"
    and Li: "is_mat 2 2 (linalg_inv ex_linalg (linalg_cholesky ex_linalg ex_S))"
    by (simp_all add: c ex_is_mat)
  have LLt: "dot (linalg_cholesky ex_linalg ex_S) (transpose_m (linalg_cholesky ex_linalg ex_S)) = ex_S"
    and i1: "dot (linalg_inv ex_linalg (linalg_cholesky ex_linalg ex_S)) (linalg_cholesky ex_linalg ex_S) = identity 2"
    and i2: "dot (linalg_cholesky ex_linalg ex_S) (linalg_inv ex_linalg (linalg_cholesky ex_linalg ex_S)) = identity 2"
    by (simp_all add: c ex_L_def ex_Linv_def ex_S_def matrix_defs numeral_2_eq_2)
  have A: "cholesky_orthogonalization ex_linalg ex_S = ex_A"
    by (simp add: cholesky_orthogonalization_def c ex_Linv_def ex_A_def matrix_defs numeral_2_eq_2)
  have s: "\<exists>c s0. rhf_setup ex_linalg (h2_args 1 False False) = Inr (c, s0) \<and> c_S c = ex_S"
    by (simp add: rhf_setup_def ex_linalg_def h2_args_def reshape_m1_3_def Let_def)
  then obtain c s0 where cs: "rhf_setup ex_linalg (h2_args 1 False False) = Inr (c, s0)" "c_S c = ex_S"
    by blast
  note all = cholesky_orthogonalization_inverse [OF L LLt Li i1 i2, unfolded Let_def]
  have t: "dot (transpose_m (cholesky_orthogonalization ex_linalg ex_S))
               (dot ex_S (cholesky_orthogonalization ex_linalg ex_S)) = identity 2"
    and u: "\<forall>a c s0. rhf_setup ex_linalg a = Inr (c, s0) \<and> c_S c = ex_S
              \<longrightarrow> c_A c = cholesky_orthogonalization ex_linalg ex_S"
    using all by blast+
  from u cs have "c_A c = ex_A" unfolding A by blast
  with cs have e: "\<exists>c s0. rhf_setup ex_linalg (h2_args 1 False False) = Inr (c, s0) \<and> c_S c = ex_S \<and> c_A c = ex_A"
    by blast
  from L LLt Li i1 i2 A t [unfolded A] e show ?thesis by blast
qed


end
